theory Spec2Isabelle
  imports Complex_Main
begin

unbundle bit_operations_syntax

section \<open>JavaScript numbers\<close>

text \<open>
  A JavaScript number is \<open>NaN\<close>, one of the two infinities, or a finite value. Finite
  values are kept as exact reals: rounding to binary64, overflow of a finite result and
  the sign of zero are not part of this model. Everything the program decides on
  \<open>NaN\<close> and on the infinities (truthiness, comparisons, \<open>isFinite\<close>, the arithmetic of
  infinite operands) is written out.
\<close>

datatype jsnum = NaN | PInf | NInf | Fin real

fun jneg :: \<open>jsnum \<Rightarrow> jsnum\<close> where
  \<open>jneg NaN = NaN\<close>
| \<open>jneg PInf = NInf\<close>
| \<open>jneg NInf = PInf\<close>
| \<open>jneg (Fin r) = Fin (- r)\<close>

fun jadd :: \<open>jsnum \<Rightarrow> jsnum \<Rightarrow> jsnum\<close> where
  \<open>jadd NaN b = NaN\<close>
| \<open>jadd a NaN = NaN\<close>
| \<open>jadd PInf NInf = NaN\<close>
| \<open>jadd NInf PInf = NaN\<close>
| \<open>jadd PInf b = PInf\<close>
| \<open>jadd a PInf = PInf\<close>
| \<open>jadd NInf b = NInf\<close>
| \<open>jadd a NInf = NInf\<close>
| \<open>jadd (Fin a) (Fin b) = Fin (a + b)\<close>

definition jsub :: \<open>jsnum \<Rightarrow> jsnum \<Rightarrow> jsnum\<close> where
  \<open>jsub a b = jadd a (jneg b)\<close>

fun jsgn :: \<open>jsnum \<Rightarrow> int\<close> where
  \<open>jsgn NaN = 0\<close>
| \<open>jsgn PInf = 1\<close>
| \<open>jsgn NInf = - 1\<close>
| \<open>jsgn (Fin r) = (if 0 < r then 1 else if r < 0 then - 1 else 0)\<close>

fun jmul :: \<open>jsnum \<Rightarrow> jsnum \<Rightarrow> jsnum\<close> where
  \<open>jmul NaN b = NaN\<close>
| \<open>jmul a NaN = NaN\<close>
| \<open>jmul (Fin a) (Fin b) = Fin (a * b)\<close>
| \<open>jmul a b =
     (if 0 < jsgn a * jsgn b then PInf else if jsgn a * jsgn b < 0 then NInf else NaN)\<close>

fun jdiv :: \<open>jsnum \<Rightarrow> jsnum \<Rightarrow> jsnum\<close> where
  \<open>jdiv NaN b = NaN\<close>
| \<open>jdiv a NaN = NaN\<close>
| \<open>jdiv (Fin a) (Fin b) =
     (if b \<noteq> 0 then Fin (a / b) else if 0 < a then PInf else if a < 0 then NInf else NaN)\<close>
| \<open>jdiv (Fin a) b = Fin 0\<close>
| \<open>jdiv a (Fin b) = (if 0 \<le> jsgn a * jsgn (Fin b) then a else jneg a)\<close>
| \<open>jdiv a b = NaN\<close>

fun jabs :: \<open>jsnum \<Rightarrow> jsnum\<close> where
  \<open>jabs NaN = NaN\<close>
| \<open>jabs PInf = PInf\<close>
| \<open>jabs NInf = PInf\<close>
| \<open>jabs (Fin r) = Fin \<bar>r\<bar>\<close>

text \<open>The relational operators: every comparison with \<open>NaN\<close> is false.\<close>

fun jlt :: \<open>jsnum \<Rightarrow> jsnum \<Rightarrow> bool\<close> where
  \<open>jlt NaN b = False\<close>
| \<open>jlt a NaN = False\<close>
| \<open>jlt (Fin a) (Fin b) = (a < b)\<close>
| \<open>jlt a NInf = False\<close>
| \<open>jlt NInf b = True\<close>
| \<open>jlt PInf b = False\<close>
| \<open>jlt a PInf = True\<close>

definition jgt :: \<open>jsnum \<Rightarrow> jsnum \<Rightarrow> bool\<close> where
  \<open>jgt a b = jlt b a\<close>

definition jeq :: \<open>jsnum \<Rightarrow> jsnum \<Rightarrow> bool\<close> where
  \<open>jeq a b = (a \<noteq> NaN \<and> a = b)\<close>

definition jle :: \<open>jsnum \<Rightarrow> jsnum \<Rightarrow> bool\<close> where
  \<open>jle a b = (jlt a b \<or> jeq a b)\<close>

definition truthyNum :: \<open>jsnum \<Rightarrow> bool\<close> where
  \<open>truthyNum a = (a \<noteq> NaN \<and> a \<noteq> Fin 0)\<close>

fun isFinite :: \<open>jsnum \<Rightarrow> bool\<close> where
  \<open>isFinite (Fin r) = True\<close>
| \<open>isFinite a = False\<close>

definition isNaN :: \<open>jsnum \<Rightarrow> bool\<close> where
  \<open>isNaN a = (a = NaN)\<close>

text \<open>\<open>a || b\<close> on numbers.\<close>

definition orNum :: \<open>jsnum \<Rightarrow> jsnum \<Rightarrow> jsnum\<close> where
  \<open>orNum a b = (if truthyNum a then a else b)\<close>

definition jmin2 :: \<open>jsnum \<Rightarrow> jsnum \<Rightarrow> jsnum\<close> where
  \<open>jmin2 a b = (if a = NaN \<or> b = NaN then NaN else if jlt b a then b else a)\<close>

definition jmax2 :: \<open>jsnum \<Rightarrow> jsnum \<Rightarrow> jsnum\<close> where
  \<open>jmax2 a b = (if a = NaN \<or> b = NaN then NaN else if jlt a b then b else a)\<close>

text \<open>\<open>Math.min(...xs)\<close> and \<open>Math.max(...xs)\<close>: the neutral elements are the infinities.\<close>

definition mathMin :: \<open>jsnum list \<Rightarrow> jsnum\<close> where
  \<open>mathMin xs = foldl jmin2 PInf xs\<close>

definition mathMax :: \<open>jsnum list \<Rightarrow> jsnum\<close> where
  \<open>mathMax xs = foldl jmax2 NInf xs\<close>

fun mathRound :: \<open>jsnum \<Rightarrow> jsnum\<close> where
  \<open>mathRound (Fin r) = Fin (of_int \<lfloor>r + 1 / 2\<rfloor>)\<close>
| \<open>mathRound a = a\<close>

fun mathHypot :: \<open>jsnum \<Rightarrow> jsnum \<Rightarrow> jsnum\<close> where
  \<open>mathHypot (Fin a) (Fin b) = Fin (sqrt (a * a + b * b))\<close>
| \<open>mathHypot a b =
     (if a = PInf \<or> a = NInf \<or> b = PInf \<or> b = NInf then PInf else NaN)\<close>

definition atan2r :: \<open>real \<Rightarrow> real \<Rightarrow> real\<close> where
  \<open>atan2r y x =
     (if 0 < x then arctan (y / x)
      else if x < 0 then (if 0 \<le> y then arctan (y / x) + pi else arctan (y / x) - pi)
      else if 0 < y then pi / 2 else if y < 0 then - (pi / 2) else 0)\<close>

fun mathAtan2 :: \<open>jsnum \<Rightarrow> jsnum \<Rightarrow> jsnum\<close> where
  \<open>mathAtan2 NaN x = NaN\<close>
| \<open>mathAtan2 y NaN = NaN\<close>
| \<open>mathAtan2 (Fin y) (Fin x) = Fin (atan2r y x)\<close>
| \<open>mathAtan2 (Fin y) PInf = Fin 0\<close>
| \<open>mathAtan2 (Fin y) NInf = Fin (if 0 \<le> y then pi else - pi)\<close>
| \<open>mathAtan2 PInf (Fin x) = Fin (pi / 2)\<close>
| \<open>mathAtan2 NInf (Fin x) = Fin (- (pi / 2))\<close>
| \<open>mathAtan2 PInf PInf = Fin (pi / 4)\<close>
| \<open>mathAtan2 PInf NInf = Fin (3 * pi / 4)\<close>
| \<open>mathAtan2 NInf PInf = Fin (- (pi / 4))\<close>
| \<open>mathAtan2 NInf NInf = Fin (- (3 * pi / 4))\<close>

fun mathCos :: \<open>jsnum \<Rightarrow> jsnum\<close> where
  \<open>mathCos (Fin r) = Fin (cos r)\<close>
| \<open>mathCos a = NaN\<close>

fun mathSin :: \<open>jsnum \<Rightarrow> jsnum\<close> where
  \<open>mathSin (Fin r) = Fin (sin r)\<close>
| \<open>mathSin a = NaN\<close>

text \<open>The remainder \<open>a % b\<close> takes the sign of the dividend.\<close>

fun jrem :: \<open>jsnum \<Rightarrow> jsnum \<Rightarrow> jsnum\<close> where
  \<open>jrem (Fin a) (Fin b) =
     (if b = 0 then NaN
      else Fin (a - b * of_int (if 0 \<le> a / b then \<lfloor>a / b\<rfloor> else \<lceil>a / b\<rceil>)))\<close>
| \<open>jrem (Fin a) PInf = Fin a\<close>
| \<open>jrem (Fin a) NInf = Fin a\<close>
| \<open>jrem a b = NaN\<close>

text \<open>\<open>ToInt32\<close>, the conversion the bitwise operators apply to their operands.\<close>

fun toInt32 :: \<open>jsnum \<Rightarrow> int\<close> where
  \<open>toInt32 (Fin r) =
     (let t = (if 0 \<le> r then \<lfloor>r\<rfloor> else \<lceil>r\<rceil>); m = t mod 4294967296
      in if 2147483648 \<le> m then m - 4294967296 else m)\<close>
| \<open>toInt32 a = 0\<close>

definition jand :: \<open>jsnum \<Rightarrow> jsnum \<Rightarrow> jsnum\<close> where
  \<open>jand a b = Fin (of_int (toInt32 a AND toInt32 b))\<close>

section \<open>Strings and conversions\<close>

text \<open>
  A string is a list of code units; the model has the 256 code units of \<^typ>\<open>char\<close>.
  \<open>trim\<close> removes the white space and line terminators among them.
\<close>

definition isWhiteSpace :: \<open>char \<Rightarrow> bool\<close> where
  \<open>isWhiteSpace c = ((of_char c :: nat) \<in> {9, 10, 11, 12, 13, 32, 160})\<close>

definition trimJs :: \<open>string \<Rightarrow> string\<close> where
  \<open>trimJs s = rev (dropWhile isWhiteSpace (rev (dropWhile isWhiteSpace s)))\<close>

definition startsWith :: \<open>string \<Rightarrow> string \<Rightarrow> bool\<close> where
  \<open>startsWith s p = (take (length p) s = p)\<close>

fun joinWith :: \<open>string \<Rightarrow> string list \<Rightarrow> string\<close> where
  \<open>joinWith sep [] = []\<close>
| \<open>joinWith sep [x] = x\<close>
| \<open>joinWith sep (x # y # ys) = x @ sep @ joinWith sep (y # ys)\<close>

definition isDigit :: \<open>char \<Rightarrow> bool\<close> where
  \<open>isDigit c = (48 \<le> (of_char c :: nat) \<and> (of_char c :: nat) \<le> 57)\<close>

definition natOfDigits :: \<open>string \<Rightarrow> nat\<close> where
  \<open>natOfDigits ds = foldl (\<lambda>n c. 10 * n + (of_char c - 48)) 0 ds\<close>

definition pow10 :: \<open>int \<Rightarrow> real\<close> where
  \<open>pow10 e = (if 0 \<le> e then 10 ^ nat e else 1 / 10 ^ nat (- e))\<close>

definition splitSign :: \<open>string \<Rightarrow> int \<times> string\<close> where
  \<open>splitSign s =
     (case s of
        [] \<Rightarrow> (1, [])
      | c # r \<Rightarrow> if c = CHR ''+'' then (1, r) else if c = CHR ''-'' then (- 1, r) else (1, s))\<close>

text \<open>
  \<open>StrUnsignedDecimalLiteral\<close>: digits with an optional fraction and an optional
  exponent part; \<open>None\<close> when the text is not of that form.
\<close>

definition parseUnsignedDecimal :: \<open>string \<Rightarrow> real option\<close> where
  \<open>parseUnsignedDecimal s =
     (let ip = takeWhile isDigit s;
          r1 = dropWhile isDigit s;
          hasDot = (r1 \<noteq> [] \<and> hd r1 = CHR ''.'');
          fp = (if hasDot then takeWhile isDigit (tl r1) else []);
          r2 = (if hasDot then dropWhile isDigit (tl r1) else r1);
          mant = real (natOfDigits (ip @ fp)) / 10 ^ length fp
      in if ip = [] \<and> fp = [] then None
         else if r2 = [] then Some mant
         else if hd r2 = CHR ''e'' \<or> hd r2 = CHR ''E'' then
           (let se = splitSign (tl r2)
            in if snd se \<noteq> [] \<and> list_all isDigit (snd se)
               then Some (mant * pow10 (fst se * int (natOfDigits (snd se))))
               else None)
         else None)\<close>

definition radixDigit :: \<open>char \<Rightarrow> nat option\<close> where
  \<open>radixDigit c =
     (let n = (of_char c :: nat)
      in if 48 \<le> n \<and> n \<le> 57 then Some (n - 48)
         else if 97 \<le> n \<and> n \<le> 102 then Some (n - 87)
         else if 65 \<le> n \<and> n \<le> 70 then Some (n - 55)
         else None)\<close>

text \<open>\<open>0x\<close>, \<open>0o\<close> and \<open>0b\<close> literals: at least one digit, every digit below the radix.\<close>

definition parseRadix :: \<open>nat \<Rightarrow> string \<Rightarrow> real option\<close> where
  \<open>parseRadix b ds =
     (if ds \<noteq> [] \<and> list_all (\<lambda>c. case radixDigit c of None \<Rightarrow> False | Some d \<Rightarrow> d < b) ds
      then Some (real (foldl (\<lambda>n c. b * n + the (radixDigit c)) 0 ds))
      else None)\<close>

definition fromReal :: \<open>real option \<Rightarrow> jsnum\<close> where
  \<open>fromReal r = (case r of None \<Rightarrow> NaN | Some v \<Rightarrow> Fin v)\<close>

text \<open>
  \<open>StringToNumber\<close>, the conversion of unary \<open>+\<close> on a string: white space is trimmed, the
  empty string is 0, and a text that is no numeric literal is \<open>NaN\<close>.
\<close>

definition StringToNumber :: \<open>string \<Rightarrow> jsnum\<close> where
  \<open>StringToNumber s0 =
     (let s = trimJs s0
      in if s = [] then Fin 0
         else if take 2 s = ''0x'' \<or> take 2 s = ''0X'' then fromReal (parseRadix 16 (drop 2 s))
         else if take 2 s = ''0o'' \<or> take 2 s = ''0O'' then fromReal (parseRadix 8 (drop 2 s))
         else if take 2 s = ''0b'' \<or> take 2 s = ''0B'' then fromReal (parseRadix 2 (drop 2 s))
         else (let sg = splitSign s
               in if snd sg = ''Infinity'' then (if fst sg = 1 then PInf else NInf)
                  else (case parseUnsignedDecimal (snd sg) of
                          None \<Rightarrow> NaN
                        | Some v \<Rightarrow> Fin (real_of_int (fst sg) * v))))\<close>

text \<open>Unary \<open>+\<close> on a value that is a string or \<open>undefined\<close>.\<close>

definition unaryPlus :: \<open>string option \<Rightarrow> jsnum\<close> where
  \<open>unaryPlus v = (case v of None \<Rightarrow> NaN | Some s \<Rightarrow> StringToNumber s)\<close>

fun digitsOf :: \<open>nat \<Rightarrow> string\<close> where
  \<open>digitsOf n =
     (if n < 10 then [''0123456789'' ! n]
      else digitsOf (n div 10) @ [''0123456789'' ! (n mod 10)])\<close>

text \<open>
  \<open>Number::toString\<close>. The special values and the integers below \<open>10^21\<close> are written
  out; the text of every other finite value is the host's, the parameter \<open>fmt\<close>.
\<close>

definition numToString :: \<open>(real \<Rightarrow> string) \<Rightarrow> jsnum \<Rightarrow> string\<close> where
  \<open>numToString fmt a =
     (case a of
        NaN \<Rightarrow> ''NaN''
      | PInf \<Rightarrow> ''Infinity''
      | NInf \<Rightarrow> ''-Infinity''
      | Fin r \<Rightarrow>
          if r = of_int \<lfloor>r\<rfloor> \<and> \<bar>r\<bar> < 10 ^ 21
          then (if r < 0 then ''-'' else '''') @ digitsOf (nat \<bar>\<lfloor>r\<rfloor>\<bar>)
          else fmt r)\<close>

section \<open>Records and the numeric accessors\<close>

text \<open>
  A record is the sequence of its (group code, value) pairs, in the order of the file,
  with a code possibly repeated.
\<close>

type_synonym dxfrecord = \<open>(int \<times> string) list\<close>

text \<open>
  Modelled from the spec: \<open>getGroupCodeValue\<close> is imported from the package of the
  record tokenizer; it gives the first value stored for a code, and \<open>undefined\<close>
  (\<open>None\<close>) when the record has none.
\<close>

definition getGroupCodeValue :: \<open>dxfrecord \<Rightarrow> int \<Rightarrow> string option\<close> where
  \<open>getGroupCodeValue r c = map_of r c\<close>

text \<open>
  Modelled from the spec: \<open>getGroupCodeValues\<close> is imported from the same package; it
  gives every value stored for a code, in the order of the record.
\<close>

definition getGroupCodeValues :: \<open>dxfrecord \<Rightarrow> int \<Rightarrow> string list\<close> where
  \<open>getGroupCodeValues r c = map snd (filter (\<lambda>p. fst p = c) r)\<close>

datatype error = Error string | TypeError

definition trim :: \<open>string option \<Rightarrow> string option\<close> where
  \<open>trim s = map_option trimJs s\<close>

definition dollar_trim :: \<open>dxfrecord \<Rightarrow> int \<Rightarrow> string option\<close> where
  \<open>dollar_trim r groupCode = trim (getGroupCodeValue r groupCode)\<close>

definition dollar_number :: \<open>(real \<Rightarrow> string) \<Rightarrow> dxfrecord \<Rightarrow> int \<Rightarrow> jsnum option \<Rightarrow> error + jsnum\<close> where
  \<open>dollar_number fmt r groupCode defaultValue =
     (let v = unaryPlus (getGroupCodeValue r groupCode)
      in if isNaN v then Inr (case defaultValue of None \<Rightarrow> NaN | Some d \<Rightarrow> d)
         else if jgt (jabs v) (Fin 1000000)
         then Inl (Error (''group code '' @ numToString fmt (Fin (of_int groupCode))
                          @ '' is invalid ('' @ numToString fmt v @ '')''))
         else (let rounded = mathRound v
               in if jlt (jabs (jsub rounded v)) (Fin (1 / 10 ^ 8)) then Inr rounded else Inr v))\<close>

section \<open>Linetype dash patterns\<close>

text \<open>
  The two local constants of the linetype loop of \<open>createEntitySvgMap\<close>: the raw pattern
  (group 49 values, trimmed, a leading minus sign removed) and the pattern stored in
  the linetype map.
\<close>

definition raw_strokeDasharray :: \<open>dxfrecord \<Rightarrow> string list\<close> where
  \<open>raw_strokeDasharray ltype =
     map (\<lambda>s. if startsWith s ''-'' then drop 1 s else s)
       (map trimJs (getGroupCodeValues ltype 49))\<close>

definition strokeDasharray_of :: \<open>string list \<Rightarrow> string list\<close> where
  \<open>strokeDasharray_of d =
     (if length d = 0 \<or> length d mod 2 = 1 then d
      else if d ! 0 = ''0'' then drop 1 d
      else d @ [''0''])\<close>

definition ltype_strokeDasharray :: \<open>dxfrecord \<Rightarrow> string list\<close> where
  \<open>ltype_strokeDasharray ltype = strokeDasharray_of (raw_strokeDasharray ltype)\<close>


section \<open>The document and the configuration\<close>

text \<open>
  The parsed document: the header variables by name, the three tables the program
  reads, the blocks by name and the entity list. An absent table is the empty list, an
  absent header or block mapping the empty map; the entity list itself may be absent.
\<close>

record dxf =
  HEADER :: \<open>string \<rightharpoonup> dxfrecord\<close>
  TABLES_LAYER :: \<open>dxfrecord list\<close>
  TABLES_LTYPE :: \<open>dxfrecord list\<close>
  TABLES_DIMSTYLE :: \<open>dxfrecord list\<close>
  BLOCKS :: \<open>string \<rightharpoonup> dxfrecord list\<close>
  ENTITIES :: \<open>dxfrecord list option\<close>

text \<open>A font request of the rich-text layout, the argument and result of \<open>resolveFont\<close>.\<close>

record font =
  font_family :: string
  font_weight :: jsnum
  font_style :: \<open>string option\<close>
  font_scale :: \<open>jsnum option\<close>

text \<open>
  The configuration but for the diagnostic sink \<open>warn\<close>, which the model replaces by
  the list of the calls made to it.
\<close>

record options =
  resolveColorIndex :: \<open>jsnum \<Rightarrow> string\<close>
  resolveFont :: \<open>(font \<Rightarrow> font option) option\<close>

text \<open>A property key made of a value that may be \<open>undefined\<close>.\<close>

definition propKey :: \<open>string option \<Rightarrow> string\<close> where
  \<open>propKey k = (case k of None \<Rightarrow> ''undefined'' | Some s \<Rightarrow> s)\<close>

definition truthyStr :: \<open>string option \<Rightarrow> bool\<close> where
  \<open>truthyStr v = (case v of None \<Rightarrow> False | Some s \<Rightarrow> s \<noteq> [])\<close>

section \<open>Style resolution\<close>

record layer =
  layer_color :: string
  layer_ltype :: \<open>string option\<close>

text \<open>The layer loop of \<open>createEntitySvgMap\<close>: a later layer of the same name wins.\<close>

fun layerMap_from :: \<open>options \<Rightarrow> dxfrecord list \<Rightarrow> (string \<rightharpoonup> layer) \<Rightarrow> (string \<rightharpoonup> layer)\<close> where
  \<open>layerMap_from opts [] m = m\<close>
| \<open>layerMap_from opts (l # ls) m =
     layerMap_from opts ls
       (if getGroupCodeValue l 0 = Some ''LAYER''
        then m(propKey (getGroupCodeValue l 2) \<mapsto>
               \<lparr>layer_color = resolveColorIndex opts (unaryPlus (getGroupCodeValue l 62)),
                layer_ltype = getGroupCodeValue l 6\<rparr>)
        else m)\<close>

definition layerMap :: \<open>options \<Rightarrow> dxf \<Rightarrow> (string \<rightharpoonup> layer)\<close> where
  \<open>layerMap opts d = layerMap_from opts (TABLES_LAYER d) Map.empty\<close>

fun ltypeMap_from :: \<open>dxfrecord list \<Rightarrow> (string \<rightharpoonup> string) \<Rightarrow> (string \<rightharpoonup> string)\<close> where
  \<open>ltypeMap_from [] m = m\<close>
| \<open>ltypeMap_from (l # ls) m =
     ltypeMap_from ls
       (if getGroupCodeValue l 0 = Some ''LTYPE'' \<and> length (ltype_strokeDasharray l) \<noteq> 0
        then m(propKey (getGroupCodeValue l 2) \<mapsto> joinWith '' '' (ltype_strokeDasharray l))
        else m)\<close>

definition ltypeMap :: \<open>dxf \<Rightarrow> (string \<rightharpoonup> string)\<close> where
  \<open>ltypeMap d = ltypeMap_from (TABLES_LTYPE d) Map.empty\<close>

text \<open>\<open>_color\<close>: \<open>None\<close> is \<open>undefined\<close>.\<close>

definition underscore_color :: \<open>options \<Rightarrow> dxf \<Rightarrow> dxfrecord \<Rightarrow> string option\<close> where
  \<open>underscore_color opts d entity =
     (let colorIndex = dollar_trim entity 62
      in if colorIndex = Some ''0'' then Some ''currentColor''
         else if truthyStr colorIndex \<and> colorIndex \<noteq> Some ''256''
         then Some (resolveColorIndex opts (unaryPlus colorIndex))
         else (case layerMap opts d (propKey (dollar_trim entity 8)) of
                 Some l \<Rightarrow> Some (layer_color l)
               | None \<Rightarrow> None))\<close>

definition color :: \<open>options \<Rightarrow> dxf \<Rightarrow> dxfrecord \<Rightarrow> string\<close> where
  \<open>color opts d entity =
     (if truthyStr (underscore_color opts d entity) then the (underscore_color opts d entity)
      else ''currentColor'')\<close>

text \<open>
  \<open>strokeDasharray\<close>: the entity's linetype name, else its layer's; \<open>undefined\<close> when
  the linetype map has no pattern under that name.
\<close>

definition strokeDasharray :: \<open>options \<Rightarrow> dxf \<Rightarrow> dxfrecord \<Rightarrow> string option\<close> where
  \<open>strokeDasharray opts d entity =
     ltypeMap d
       (propKey (case getGroupCodeValue entity 6 of
                   Some n \<Rightarrow> Some n
                 | None \<Rightarrow>
                     (case layerMap opts d (propKey (getGroupCodeValue entity 8)) of
                        Some l \<Rightarrow> layer_ltype l
                      | None \<Rightarrow> None)))\<close>

definition extrusionStyle :: \<open>dxfrecord \<Rightarrow> string option\<close> where
  \<open>extrusionStyle entity =
     (let extrusionZ = unaryPlus (dollar_trim entity 230)
      in if truthyNum extrusionZ \<and> jlt (jabs (jadd extrusionZ (Fin 1))) (Fin (1 / 64))
         then Some ''transform:rotateY(180deg)'' else None)\<close>

section \<open>Rounding and the rotation of multi-line text\<close>

text \<open>
  \<open>round\<close> shifts the decimal exponent in the number's text, rounds, and shifts back.
  \<open>_shift\<close> reads back the text \<open>d + 'e' + exponent\<close>: that is no numeric literal, hence
  \<open>NaN\<close>, unless the number is finite and the precision is an integer (printed without
  an exponent of its own); otherwise it is the number times the power of ten.
\<close>

definition shift_exponent :: \<open>jsnum \<Rightarrow> jsnum \<Rightarrow> jsnum\<close> where
  \<open>shift_exponent n precision =
     (case n of
        Fin r \<Rightarrow>
          (case precision of
             Fin p \<Rightarrow> if p = of_int \<lfloor>p\<rfloor> \<and> \<bar>p\<bar> < 10 ^ 21 then Fin (r * pow10 \<lfloor>p\<rfloor>) else NaN
           | _ \<Rightarrow> NaN)
      | _ \<Rightarrow> NaN)\<close>

definition round_js :: \<open>jsnum \<Rightarrow> jsnum \<Rightarrow> jsnum\<close> where
  \<open>round_js n precision =
     shift_exponent (mathRound (shift_exponent n precision)) (jneg precision)\<close>

definition yx2angle :: \<open>jsnum \<Rightarrow> jsnum \<Rightarrow> jsnum\<close> where
  \<open>yx2angle y x =
     orNum (round_js (jdiv (jmul (mathAtan2 (orNum y (Fin 0)) (orNum x (Fin 0))) (Fin 180)) (Fin pi))
              (Fin 5))
       (Fin 0)\<close>

text \<open>
  \<open>MTEXT_angle\<close> walks the record from its last pair to its first; \<open>MTEXT_angle_from\<close>
  is that loop over the pairs still to visit, last pair first.
\<close>

fun MTEXT_angle_from :: \<open>(real \<Rightarrow> string) \<Rightarrow> dxfrecord \<Rightarrow> dxfrecord \<Rightarrow> error + jsnum\<close> where
  \<open>MTEXT_angle_from fmt mtext [] = Inr (Fin 0)\<close>
| \<open>MTEXT_angle_from fmt mtext (p # ps) =
     (if fst p = 50 then Inr (orNum (round_js (StringToNumber (snd p)) (Fin 5)) (Fin 0))
      else if fst p = 11 then
        (case dollar_number fmt mtext 12 None of
           Inl e \<Rightarrow> Inl e
         | Inr y \<Rightarrow> Inr (yx2angle y (StringToNumber (snd p))))
      else if fst p = 21 then
        (case dollar_number fmt mtext 11 None of
           Inl e \<Rightarrow> Inl e
         | Inr x \<Rightarrow> Inr (yx2angle (StringToNumber (snd p)) x))
      else MTEXT_angle_from fmt mtext ps)\<close>

definition MTEXT_angle :: \<open>(real \<Rightarrow> string) \<Rightarrow> dxfrecord \<Rightarrow> error + jsnum\<close> where
  \<open>MTEXT_angle fmt mtext = MTEXT_angle_from fmt mtext (rev mtext)\<close>

text \<open>
  The examples of this theory print integers only. They are stated for the host text
  function \<open>exampleText\<close>, whose mark \<open>?\<close> would show in a result that consulted it.
\<close>

definition exampleText :: \<open>real \<Rightarrow> string\<close> where
  \<open>exampleText r = ''?''\<close>

section \<open>Dimension text\<close>

text \<open>The resolved dimension style variables, one number each.\<close>

record dimstyles =
  DIMSCALE :: jsnum
  DIMTP :: jsnum
  DIMTM :: jsnum
  DIMTOL :: jsnum
  DIMTXT :: jsnum
  DIMLFAC :: jsnum
  DIMCLRT :: jsnum
  DIMDEC :: jsnum

definition toleranceString :: \<open>(real \<Rightarrow> string) \<Rightarrow> jsnum \<Rightarrow> string\<close> where
  \<open>toleranceString fmt n =
     (if jgt n (Fin 0) then ''+'' @ numToString fmt n
      else if jlt n (Fin 0) then numToString fmt n
      else '' 0'')\<close>

text \<open>
  \<open>String.prototype.replace\<close> with a pattern that has no capture group: the first match
  is replaced by the replacement text, in which \<open>$$\<close>, \<open>$&\<close>, \<open>$`\<close> and \<open>$'\<close> stand for a
  dollar sign, the match, the text before it and the text after it.
\<close>

fun getSubstitution :: \<open>string \<Rightarrow> string \<Rightarrow> string \<Rightarrow> string \<Rightarrow> string\<close> where
  \<open>getSubstitution matched before after [] = []\<close>
| \<open>getSubstitution matched before after [c] = [c]\<close>
| \<open>getSubstitution matched before after (c # d # r) =
     (if c = CHR ''$'' \<and> d = CHR ''$'' then CHR ''$'' # getSubstitution matched before after r
      else if c = CHR ''$'' \<and> d = CHR ''&'' then matched @ getSubstitution matched before after r
      else if c = CHR ''$'' \<and> d = CHR 0x60 then before @ getSubstitution matched before after r
      else if c = CHR ''$'' \<and> d = CHR 0x27 then after @ getSubstitution matched before after r
      else c # getSubstitution matched before after (d # r))\<close>

fun splitOn :: \<open>string \<Rightarrow> string \<Rightarrow> string \<Rightarrow> (string \<times> string) option\<close> where
  \<open>splitOn pat before [] = (if pat = [] then Some (before, []) else None)\<close>
| \<open>splitOn pat before (c # r) =
     (if startsWith (c # r) pat then Some (before, drop (length pat) (c # r))
      else splitOn pat (before @ [c]) r)\<close>

definition replaceFirst :: \<open>string \<Rightarrow> string \<Rightarrow> string \<Rightarrow> string\<close> where
  \<open>replaceFirst pat replacement s =
     (case splitOn pat [] s of
        None \<Rightarrow> s
      | Some (before, after) \<Rightarrow> before @ getSubstitution pat before after replacement @ after)\<close>

text \<open>
  The local \<open>valueWithTolerance\<close> of \<open>dimensionValueToMText\<close>, as a function of the rounded
  value and the styles. The sign \<open>\<plusminus>\<close> is the code unit \<open>0xB1\<close>.
\<close>

definition valueWithTolerance :: \<open>(real \<Rightarrow> string) \<Rightarrow> jsnum \<Rightarrow> dimstyles \<Rightarrow> string\<close> where
  \<open>valueWithTolerance fmt v styles =
     (let p = DIMTP styles; n = DIMTM styles
      in if truthyNum (DIMTOL styles) \<and> (truthyNum p \<or> truthyNum n)
         then (if jeq p n then numToString fmt v @ ''  '' @ [CHR 0xB1] @ numToString fmt p
               else numToString fmt v @ ''  {'' @ [CHR 0x5C] @ ''S'' @ toleranceString fmt p
                    @ ''^'' @ toleranceString fmt (jneg n) @ '';}'')
         else numToString fmt v)\<close>

definition dimensionValueToMText :: \<open>(real \<Rightarrow> string) \<Rightarrow> jsnum \<Rightarrow> dxfrecord \<Rightarrow> dimstyles \<Rightarrow> error + string\<close> where
  \<open>dimensionValueToMText fmt measurement dimension styles =
     (case dollar_number fmt dimension 42 (Some (Fin (- 1))) of
        Inl e \<Rightarrow> Inl e
      | Inr savedValue \<Rightarrow>
          (let v = round_js (if \<not> jeq savedValue (Fin (- 1)) then savedValue
                             else jmul measurement (DIMLFAC styles))
                     (DIMDEC styles);
               template = getGroupCodeValue dimension 1
           in if truthyStr template
              then Inr (replaceFirst ''<>'' (valueWithTolerance fmt v styles) (the template))
              else Inr (valueWithTolerance fmt v styles)))\<close>

section \<open>Markup\<close>

text \<open>
  The values a property of a \<open>jsx\<close> call holds: \<open>undefined\<close>, a number, a string, a
  boolean, or an array of strings (the children of a text element).
\<close>

datatype jsval = Undefined | Num jsnum | Str string | Bool bool | Arr \<open>string list\<close>

fun truthy :: \<open>jsval \<Rightarrow> bool\<close> where
  \<open>truthy Undefined = False\<close>
| \<open>truthy (Num n) = truthyNum n\<close>
| \<open>truthy (Str s) = (s \<noteq> [])\<close>
| \<open>truthy (Bool b) = b\<close>
| \<open>truthy (Arr xs) = True\<close>

definition strOpt :: \<open>string option \<Rightarrow> jsval\<close> where
  \<open>strOpt v = (case v of None \<Rightarrow> Undefined | Some s \<Rightarrow> Str s)\<close>

text \<open>The text of a value inside a template literal or a string concatenation.\<close>

fun valueText :: \<open>(real \<Rightarrow> string) \<Rightarrow> jsval \<Rightarrow> string\<close> where
  \<open>valueText fmt Undefined = ''undefined''\<close>
| \<open>valueText fmt (Num n) = numToString fmt n\<close>
| \<open>valueText fmt (Str s) = s\<close>
| \<open>valueText fmt (Bool b) = (if b then ''true'' else ''false'')\<close>
| \<open>valueText fmt (Arr xs) = joinWith '','' xs\<close>

definition numOptText :: \<open>(real \<Rightarrow> string) \<Rightarrow> jsnum option \<Rightarrow> string\<close> where
  \<open>numOptText fmt v = (case v of None \<Rightarrow> ''undefined'' | Some n \<Rightarrow> numToString fmt n)\<close>

definition replaceAll :: \<open>char \<Rightarrow> string \<Rightarrow> string \<Rightarrow> string\<close> where
  \<open>replaceAll c r s = concat (map (\<lambda>x. if x = c then r else [x]) s)\<close>

definition escapeHtml :: \<open>string \<Rightarrow> string\<close> where
  \<open>escapeHtml s =
     replaceAll (CHR 0x22) ''&quot;''
       (replaceAll (CHR ''>'') ''&gt;'' (replaceAll (CHR ''<'') ''&lt;'' (replaceAll (CHR ''&'') ''&amp;'' s)))\<close>

text \<open>
  \<open>jsx\<close> takes the properties in the order of the object's keys. \<open>jsx_attrs\<close> is the loop
  over them, \<open>jsx_children\<close> the value the loop leaves in \<open>children\<close>.
\<close>

fun jsx_attrs :: \<open>(real \<Rightarrow> string) \<Rightarrow> (string \<times> jsval) list \<Rightarrow> string\<close> where
  \<open>jsx_attrs fmt [] = []\<close>
| \<open>jsx_attrs fmt (p # ps) =
     (if \<not> truthy (snd p) \<or> fst p = ''children'' then jsx_attrs fmt ps
      else '' '' @ fst p @ ''="''
           @ (case snd p of Str v \<Rightarrow> escapeHtml v | v \<Rightarrow> valueText fmt v)
           @ ''"'' @ jsx_attrs fmt ps)\<close>

fun jsx_children :: \<open>(string \<times> jsval) list \<Rightarrow> jsval \<Rightarrow> jsval\<close> where
  \<open>jsx_children [] children = children\<close>
| \<open>jsx_children (p # ps) children =
     jsx_children ps (if truthy (snd p) \<and> fst p = ''children'' then snd p else children)\<close>

definition getProp :: \<open>(string \<times> jsval) list \<Rightarrow> string \<Rightarrow> jsval\<close> where
  \<open>getProp props key = (case map_of props key of None \<Rightarrow> Undefined | Some v \<Rightarrow> v)\<close>

definition jsx :: \<open>(real \<Rightarrow> string) \<Rightarrow> string \<Rightarrow> (string \<times> jsval) list \<Rightarrow> string\<close> where
  \<open>jsx fmt type props =
     (let s0 = ''<'' @ type @ jsx_attrs fmt props;
          children = jsx_children props Undefined;
          s1 = (if type = ''line'' \<or> type = ''polyline'' \<or> type = ''polygon'' \<or> type = ''circle''
                   \<or> type = ''path''
                then s0 @ (if \<not> truthy (getProp props ''fill'') then '' fill="none"'' else [])
                     @ '' vector-effect="non-scaling-stroke"''
                else s0);
          s2 = (if type = ''text'' then s1 @ '' stroke="none" style="white-space:pre"'' else s1)
      in if truthy children
         then s2 @ ''>''
              @ (case children of Arr xs \<Rightarrow> concat xs | v \<Rightarrow> valueText fmt v)
              @ ''</'' @ type @ ''>''
         else s2 @ ''/>'')\<close>

section \<open>The host and the collaborators\<close>

text \<open>A token of parsed multi-line text and a run of parsed single-line text.\<close>

datatype mtext =
    MText string
  | MSeq \<open>mtext list\<close>
  | MStack string string string
  | MFont string bool bool
  | MOblique jsnum
  | MOther

record textrun =
  run_text :: string
  run_k :: bool
  run_o :: bool
  run_u :: bool

text \<open>
  What the program takes from outside its file: the host's text of a finite number that
  is no integer below \<open>10^21\<close>, the two text parsers, and the color table.
\<close>

record host =
  numberText :: \<open>real \<Rightarrow> string\<close>
  parseDxfMTextContent :: \<open>string \<Rightarrow> mtext list\<close>
  parseDxfTextContent :: \<open>string \<Rightarrow> textrun list\<close>
  DXF_COLOR_HEX :: \<open>jsnum \<Rightarrow> string option\<close>

text \<open>Sequencing of steps that may throw.\<close>

definition bindE :: \<open>error + 'a \<Rightarrow> ('a \<Rightarrow> error + 'b) \<Rightarrow> error + 'b\<close> where
  \<open>bindE m f = (case m of Inl e \<Rightarrow> Inl e | Inr v \<Rightarrow> f v)\<close>

fun mapE :: \<open>('a \<Rightarrow> error + 'b) \<Rightarrow> 'a list \<Rightarrow> error + 'b list\<close> where
  \<open>mapE f [] = Inr []\<close>
| \<open>mapE f (x # xs) = bindE (f x) (\<lambda>y. bindE (mapE f xs) (\<lambda>ys. Inr (y # ys)))\<close>

definition dollar_numbers :: \<open>(real \<Rightarrow> string) \<Rightarrow> dxfrecord \<Rightarrow> int list \<Rightarrow> error + jsnum list\<close> where
  \<open>dollar_numbers fmt r groupCodes = mapE (\<lambda>groupCode. dollar_number fmt r groupCode None) groupCodes\<close>

definition dollar_negates :: \<open>(real \<Rightarrow> string) \<Rightarrow> dxfrecord \<Rightarrow> int list \<Rightarrow> error + jsnum list\<close> where
  \<open>dollar_negates fmt r groupCodes =
     mapE (\<lambda>groupCode. bindE (dollar_number fmt r groupCode None) (\<lambda>v. Inr (jneg v))) groupCodes\<close>

definition commonAttributes :: \<open>dxfrecord \<Rightarrow> (string \<times> jsval) list\<close> where
  \<open>commonAttributes entity = [(''data-5'', strOpt (dollar_trim entity 5))]\<close>

definition lineAttributes :: \<open>options \<Rightarrow> dxf \<Rightarrow> dxfrecord \<Rightarrow> (string \<times> jsval) list\<close> where
  \<open>lineAttributes opts d entity =
     commonAttributes entity
     @ [(''stroke'', Str (color opts d entity)),
        (''stroke-dasharray'', strOpt (strokeDasharray opts d entity)),
        (''style'', strOpt (extrusionStyle entity))]\<close>

fun polylinePoints_from :: \<open>(real \<Rightarrow> string) \<Rightarrow> jsnum list \<Rightarrow> jsnum list \<Rightarrow> string\<close> where
  \<open>polylinePoints_from fmt [] ys = []\<close>
| \<open>polylinePoints_from fmt (x # xs) ys =
     numToString fmt x @ '','' @ numOptText fmt (case ys of [] \<Rightarrow> None | y # r \<Rightarrow> Some y) @ '' ''
     @ polylinePoints_from fmt xs (tl ys)\<close>

definition polylinePoints :: \<open>(real \<Rightarrow> string) \<Rightarrow> jsnum list \<Rightarrow> jsnum list \<Rightarrow> string\<close> where
  \<open>polylinePoints fmt xs ys = butlast (polylinePoints_from fmt xs ys)\<close>

text \<open>An interpreter gives \<open>undefined\<close> or the markup with its x and y coordinates.\<close>

type_synonym svg = \<open>string \<times> jsnum list \<times> jsnum list\<close>

section \<open>Entity interpreters\<close>

text \<open>
  The diagnostic sink is the list of the calls made to \<open>warn\<close>, each with its message and
  its further arguments. The message of the scene assembler's \<open>catch\<close> is kept as the
  error it reports, since the text of a host \<open>TypeError\<close> is the host's.
\<close>

datatype message = Text string | ErrorOccurred error

type_synonym diag = \<open>message \<times> dxfrecord list\<close>

definition POINT :: \<open>svg option\<close> where
  \<open>POINT = None\<close>

definition LINE :: \<open>host \<Rightarrow> options \<Rightarrow> dxf \<Rightarrow> dxfrecord \<Rightarrow> error + svg option\<close> where
  \<open>LINE h opts d entity =
     bindE (dollar_numbers (numberText h) entity [10, 11]) (\<lambda>xs.
     bindE (dollar_negates (numberText h) entity [20, 21]) (\<lambda>ys.
     Inr (Some (jsx (numberText h) ''line''
                  (lineAttributes opts d entity
                   @ [(''x1'', Num (xs ! 0)), (''y1'', Num (ys ! 0)),
                      (''x2'', Num (xs ! 1)), (''y2'', Num (ys ! 1))]),
                xs, ys))))\<close>

definition flags_of :: \<open>dxfrecord \<Rightarrow> jsnum\<close> where
  \<open>flags_of entity =
     (case getGroupCodeValue entity 70 of None \<Rightarrow> Fin 0 | Some s \<Rightarrow> StringToNumber s)\<close>

definition POLYLINE :: \<open>host \<Rightarrow> options \<Rightarrow> dxf \<Rightarrow> dxfrecord \<Rightarrow> dxfrecord list \<Rightarrow> error + svg option\<close> where
  \<open>POLYLINE h opts d entity vertices =
     bindE (mapE (\<lambda>v. dollar_number (numberText h) v 10 None) vertices) (\<lambda>xs.
     bindE (mapE (\<lambda>v. bindE (dollar_number (numberText h) v 20 None) (\<lambda>y. Inr (jneg y))) vertices) (\<lambda>ys.
     (let flags = flags_of entity;
          attrs = lineAttributes opts d entity
                  @ [(''points'', Str (polylinePoints (numberText h) xs ys))]
      in Inr (Some (if truthyNum (jand flags (Fin 1)) then jsx (numberText h) ''polygon'' attrs
                    else jsx (numberText h) ''polyline'' attrs,
                    xs, ys)))))\<close>

definition LWPOLYLINE :: \<open>host \<Rightarrow> options \<Rightarrow> dxf \<Rightarrow> dxfrecord \<Rightarrow> error + svg option\<close> where
  \<open>LWPOLYLINE h opts d entity =
     (let xs = map StringToNumber (getGroupCodeValues entity 10);
          ys = map (\<lambda>s. jneg (StringToNumber s)) (getGroupCodeValues entity 20);
          flags = flags_of entity;
          attrs = lineAttributes opts d entity
                  @ [(''points'', Str (polylinePoints (numberText h) xs ys))]
      in Inr (Some (if truthyNum (jand flags (Fin 1)) then jsx (numberText h) ''polygon'' attrs
                    else jsx (numberText h) ''polyline'' attrs,
                    xs, ys)))\<close>

definition CIRCLE :: \<open>host \<Rightarrow> options \<Rightarrow> dxf \<Rightarrow> dxfrecord \<Rightarrow> error + svg option\<close> where
  \<open>CIRCLE h opts d entity =
     bindE (dollar_numbers (numberText h) entity [10, 20, 40]) (\<lambda>ns.
     (let cx = ns ! 0; cy = ns ! 1; r = ns ! 2
      in Inr (Some (jsx (numberText h) ''circle''
                      (lineAttributes opts d entity
                       @ [(''cx'', Num cx), (''cy'', Num (jneg cy)), (''r'', Num r)]),
                    [jsub cx r, jadd cx r],
                    [jsub (jneg cy) r, jadd (jneg cy) r]))))\<close>

definition ARC :: \<open>host \<Rightarrow> options \<Rightarrow> dxf \<Rightarrow> dxfrecord \<Rightarrow> error + svg option\<close> where
  \<open>ARC h opts d entity =
     bindE (dollar_numbers (numberText h) entity [10, 20, 40]) (\<lambda>ns.
     bindE (dollar_number (numberText h) entity 50 (Some (Fin 0))) (\<lambda>deg1.
     bindE (dollar_number (numberText h) entity 51 (Some (Fin 0))) (\<lambda>deg2.
     (let cx = ns ! 0; cy = ns ! 1; r = ns ! 2;
          rad1 = jdiv (jmul deg1 (Fin pi)) (Fin 180);
          rad2 = jdiv (jmul deg2 (Fin pi)) (Fin 180);
          x1 = jadd cx (jmul r (mathCos rad1));
          y1 = jadd cy (jmul r (mathSin rad1));
          x2 = jadd cx (jmul r (mathCos rad2));
          y2 = jadd cy (jmul r (mathSin rad2));
          large = (if jle (jrem (jadd (jsub deg2 deg1) (Fin 360)) (Fin 360)) (Fin 180)
                   then ''0'' else ''1'');
          nt = numToString (numberText h)
      in Inr (Some (jsx (numberText h) ''path''
                      (lineAttributes opts d entity
                       @ [(''d'', Str (''M'' @ nt x1 @ '' '' @ nt (jneg y1) @ ''A'' @ nt r @ '' '' @ nt r
                                       @ '' 0 '' @ large @ '' 0 '' @ nt x2 @ '' '' @ nt (jneg y2)))]),
                    [x1, x2], [jneg y1, jneg y2]))))))\<close>

definition smallNumber :: \<open>jsnum\<close> where
  \<open>smallNumber = Fin (1 / 64)\<close>

definition nearlyEqual :: \<open>jsnum \<Rightarrow> jsnum \<Rightarrow> bool\<close> where
  \<open>nearlyEqual a b = jlt (jabs (jsub a b)) smallNumber\<close>

text \<open>\<open>ELLIPSE\<close> may call the sink: it gives the calls it made with its result.\<close>

definition ELLIPSE :: \<open>host \<Rightarrow> options \<Rightarrow> dxf \<Rightarrow> dxfrecord \<Rightarrow> diag list \<times> (error + svg option)\<close> where
  \<open>ELLIPSE h opts d entity =
     (case dollar_number (numberText h) entity 41 (Some (Fin 0)) of
        Inl e \<Rightarrow> ([], Inl e)
      | Inr rad1 \<Rightarrow>
     (case dollar_number (numberText h) entity 42 (Some (Fin (2 * pi))) of
        Inl e \<Rightarrow> ([], Inl e)
      | Inr rad2 \<Rightarrow>
          if nearlyEqual rad1 (Fin 0) \<and> nearlyEqual rad2 (Fin (2 * pi))
          then ([],
            bindE (dollar_numbers (numberText h) entity [10, 20, 11, 21]) (\<lambda>ns.
            (let cx = ns ! 0; cy = ns ! 1; majorX = ns ! 2; majorY = ns ! 3;
                 majorR = mathHypot majorX majorY
             in bindE (dollar_number (numberText h) entity 40 None) (\<lambda>ratio.
                (let minorR = jmul ratio majorR;
                     radAngleOffset = jneg (mathAtan2 majorY majorX);
                     nt = numToString (numberText h);
                     transform =
                       (if truthyNum radAngleOffset
                        then Str (''rotate('' @ nt (jdiv (jmul radAngleOffset (Fin 180)) (Fin pi))
                                  @ '' '' @ nt cx @ '' '' @ nt (jneg cy) @ '')'')
                        else Undefined)
                 in Inr (Some (jsx (numberText h) ''ellipse''
                                 (lineAttributes opts d entity
                                  @ [(''cx'', Num cx), (''cy'', Num (jneg cy)), (''rx'', Num majorR),
                                     (''ry'', Num minorR), (''transform'', transform)]),
                               [jsub cx majorR, jadd cx majorR],
                               [jsub (jneg cy) minorR, jadd (jneg cy) minorR])))))))
          else ([(Text ''Elliptical arc cannot be rendered yet.'', [])], Inr None)))\<close>

definition LEADER :: \<open>host \<Rightarrow> options \<Rightarrow> dxf \<Rightarrow> dxfrecord \<Rightarrow> error + svg option\<close> where
  \<open>LEADER h opts d entity =
     (let xs = map StringToNumber (getGroupCodeValues entity 10);
          ys = map (\<lambda>s. jneg (StringToNumber s)) (getGroupCodeValues entity 20)
      in Inr (Some (jsx (numberText h) ''polyline''
                      (commonAttributes entity
                       @ [(''points'', Str (polylinePoints (numberText h) xs ys)),
                          (''stroke'', Str (color opts d entity)),
                          (''stroke-dasharray'', strOpt (strokeDasharray opts d entity))]),
                    xs, ys)))\<close>

text \<open>Array helpers: \<open>findIndex\<close>, \<open>slice\<close> with its negative indices, and a read by index.\<close>

fun findIndex_from :: \<open>('a \<Rightarrow> bool) \<Rightarrow> 'a list \<Rightarrow> int \<Rightarrow> int\<close> where
  \<open>findIndex_from P [] i = - 1\<close>
| \<open>findIndex_from P (x # xs) i = (if P x then i else findIndex_from P xs (i + 1))\<close>

definition findIndex :: \<open>('a \<Rightarrow> bool) \<Rightarrow> 'a list \<Rightarrow> int\<close> where
  \<open>findIndex P xs = findIndex_from P xs 0\<close>

definition sliceJs :: \<open>int \<Rightarrow> int \<Rightarrow> 'a list \<Rightarrow> 'a list\<close> where
  \<open>sliceJs a b xs =
     (let n = int (length xs);
          k = (if a < 0 then max (n + a) 0 else min a n);
          fin = (if b < 0 then max (n + b) 0 else min b n)
      in take (nat (fin - k)) (drop (nat k) xs))\<close>

definition nthOpt :: \<open>'a list \<Rightarrow> int \<Rightarrow> 'a option\<close> where
  \<open>nthOpt xs i = (if 0 \<le> i \<and> i < int (length xs) then Some (xs ! nat i) else None)\<close>

definition truthyNumOpt :: \<open>jsnum option \<Rightarrow> bool\<close> where
  \<open>truthyNumOpt v = (case v of None \<Rightarrow> False | Some n \<Rightarrow> truthyNum n)\<close>

text \<open>\<open>===\<close> on values that are numbers or \<open>undefined\<close>.\<close>

definition strictEqOpt :: \<open>jsnum option \<Rightarrow> jsnum option \<Rightarrow> bool\<close> where
  \<open>strictEqOpt a b =
     (case a of
        None \<Rightarrow> b = None
      | Some m \<Rightarrow> (case b of None \<Rightarrow> False | Some n \<Rightarrow> jeq m n))\<close>

definition numOpt :: \<open>jsnum option \<Rightarrow> jsval\<close> where
  \<open>numOpt v = (case v of None \<Rightarrow> Undefined | Some n \<Rightarrow> Num n)\<close>

definition HATCH_edge :: \<open>(real \<Rightarrow> string) \<Rightarrow> jsnum list \<Rightarrow> jsnum list \<Rightarrow> jsnum list \<Rightarrow> jsnum list \<Rightarrow> nat \<Rightarrow> string\<close> where
  \<open>HATCH_edge fmt x1s y1s x2s y2s i =
     (let x1 = nthOpt x1s (int i); y1 = nthOpt y1s (int i);
          x2 = nthOpt x2s (int i); y2 = nthOpt y2s (int i)
      in if \<not> truthyNumOpt x2
         then (if i = 0 then ''M'' else ''L'') @ numOptText fmt x1 @ '' '' @ numOptText fmt y1
         else if strictEqOpt x1 (nthOpt x2s (int i - 1)) \<and> strictEqOpt y1 (nthOpt y2s (int i - 1))
         then ''L'' @ numOptText fmt x2 @ '' '' @ numOptText fmt y2
         else ''M'' @ numOptText fmt x1 @ '' '' @ numOptText fmt y1
              @ ''L'' @ numOptText fmt x2 @ '' '' @ numOptText fmt y2)\<close>

definition HATCH :: \<open>host \<Rightarrow> options \<Rightarrow> dxf \<Rightarrow> dxfrecord \<Rightarrow> error + svg option\<close> where
  \<open>HATCH h opts d entity =
     (let paths = sliceJs (findIndex (\<lambda>groupCode. fst groupCode = 92) entity)
                    (findIndex (\<lambda>groupCode. fst groupCode = 97) entity) entity;
          x1s = map StringToNumber (getGroupCodeValues paths 10);
          y1s = map (\<lambda>s. jneg (StringToNumber s)) (getGroupCodeValues paths 20);
          x2s = map StringToNumber (getGroupCodeValues paths 11);
          y2s = map (\<lambda>s. jneg (StringToNumber s)) (getGroupCodeValues paths 21);
          dd = concat (map (HATCH_edge (numberText h) x1s y1s x2s y2s) [0 ..< length x1s])
      in Inr (Some (jsx (numberText h) ''path''
                      (commonAttributes entity
                       @ [(''d'', Str dd), (''fill'', Str (color opts d entity)),
                          (''fill-opacity'', Str ''.3'')]),
                    x1s @ x2s, y1s @ y2s)))\<close>

definition SOLID :: \<open>host \<Rightarrow> options \<Rightarrow> dxf \<Rightarrow> dxfrecord \<Rightarrow> error + svg option\<close> where
  \<open>SOLID h opts d entity =
     bindE (dollar_numbers (numberText h) entity [10, 11, 12, 13]) (\<lambda>xs.
     bindE (dollar_negates (numberText h) entity [20, 21, 22, 23]) (\<lambda>ys.
     (let x1 = xs ! 0; x2 = xs ! 1; x3 = xs ! 2; x4 = xs ! 3;
          y1 = ys ! 0; y2 = ys ! 1; y3 = ys ! 2; y4 = ys ! 3;
          nt = numToString (numberText h);
          dd = ''M'' @ nt x1 @ '' '' @ nt y1 @ ''L'' @ nt x2 @ '' '' @ nt y2
               @ ''L'' @ nt x3 @ '' '' @ nt y3
               @ (if \<not> jeq x3 x4 \<or> \<not> jeq y3 y4 then ''L'' @ nt x4 @ '' '' @ nt y4 else [])
               @ ''Z''
      in Inr (Some (jsx (numberText h) ''path''
                      (commonAttributes entity
                       @ [(''d'', Str dd), (''fill'', Str (color opts d entity))]),
                    [x1, x2, x3, x4], [y1, y2, y3, y4])))))\<close>

subsection \<open>Text\<close>

definition textDecorations :: \<open>textrun \<Rightarrow> string\<close> where
  \<open>textDecorations c =
     joinWith '' ''
       ((if run_k c then [''line-through''] else [])
        @ (if run_o c then [''overline''] else [])
        @ (if run_u c then [''underline''] else []))\<close>

text \<open>
  The two alignment tables are arrays read with a string key: the canonical index texts
  find their element, \<open>length\<close> finds the length. Keys that name a property inherited
  from the array prototype are not part of the model and read as \<open>undefined\<close>.
\<close>

definition TEXT_dominantBaseline :: \<open>string option \<Rightarrow> jsval\<close> where
  \<open>TEXT_dominantBaseline key =
     (if key = Some ''1'' then Str ''text-after-edge''
      else if key = Some ''2'' then Str ''central''
      else if key = Some ''3'' then Str ''text-before-edge''
      else if key = Some ''length'' then Num (Fin 4)
      else Undefined)\<close>

definition TEXT_textAnchor :: \<open>string option \<Rightarrow> jsval\<close> where
  \<open>TEXT_textAnchor key =
     (if key = Some ''1'' then Str ''middle''
      else if key = Some ''2'' then Str ''end''
      else if key = Some ''4'' then Str ''middle''
      else if key = Some ''length'' then Num (Fin 5)
      else Undefined)\<close>

definition TEXT :: \<open>host \<Rightarrow> options \<Rightarrow> dxf \<Rightarrow> dxfrecord \<Rightarrow> error + svg option\<close> where
  \<open>TEXT h opts d entity =
     bindE (dollar_numbers (numberText h) entity [10, 40]) (\<lambda>ns.
     bindE (dollar_negates (numberText h) entity [20, 50]) (\<lambda>ms.
     (let x = ns ! 0; hh = ns ! 1; y = ms ! 0; angle = ms ! 1;
          nt = numToString (numberText h);
          contents = parseDxfTextContent h
                       (case getGroupCodeValue entity 1 of None \<Rightarrow> [] | Some s \<Rightarrow> s)
      in Inr (Some (jsx (numberText h) ''text''
                      (commonAttributes entity
                       @ [(''x'', Num x), (''y'', Num y), (''fill'', Str (color opts d entity)),
                          (''font-size'', Num hh),
                          (''dominant-baseline'', TEXT_dominantBaseline (dollar_trim entity 73)),
                          (''text-anchor'', TEXT_textAnchor (dollar_trim entity 72)),
                          (''transform'',
                             if truthyNum angle
                             then Str (''rotate('' @ nt angle @ '' '' @ nt x @ '' '' @ nt y @ '')'')
                             else Num angle),
                          (''text-decoration'',
                             if length contents = 1 then Str (textDecorations (contents ! 0))
                             else Bool False),
                          (''children'',
                             if length contents = 1 then Str (run_text (contents ! 0))
                             else Arr (map (\<lambda>content.
                                         jsx (numberText h) ''tspan''
                                           [(''text-decoration'', Str (textDecorations content)),
                                            (''children'', Str (run_text content))])
                                       contents))]),
                    [x, jadd x (jmul hh (Fin (real (length contents))))],
                    [y, jadd y hh])))))\<close>

definition MTEXT_attachmentPoint :: \<open>string option \<Rightarrow> string option \<times> string option\<close> where
  \<open>MTEXT_attachmentPoint n0 =
     (let n = unaryPlus n0;
          dominantBaseline =
            (if n = Fin 1 \<or> n = Fin 2 \<or> n = Fin 3 then Some ''text-before-edge''
             else if n = Fin 4 \<or> n = Fin 5 \<or> n = Fin 6 then Some ''central''
             else if n = Fin 7 \<or> n = Fin 8 \<or> n = Fin 9 then Some ''text-after-edge''
             else None);
          textAnchor =
            (if jrem n (Fin 3) = Fin 2 then Some ''middle''
             else if jrem n (Fin 3) = Fin 0 then Some ''end''
             else None)
      in (dominantBaseline, textAnchor))\<close>

definition resolvedFont :: \<open>options \<Rightarrow> font \<Rightarrow> font\<close> where
  \<open>resolvedFont opts f =
     (case resolveFont opts of
        None \<Rightarrow> f
      | Some resolve \<Rightarrow> (case resolve f of None \<Rightarrow> f | Some g \<Rightarrow> g))\<close>

text \<open>
  \<open>MTEXT_contents\<close>: the markup of the tokens from index \<open>i\<close> on, here the list of the
  tokens still to lay out. A font switch and an oblique angle wrap what follows them.
\<close>

fun MTEXT_contents :: \<open>(real \<Rightarrow> string) \<Rightarrow> options \<Rightarrow> mtext list \<Rightarrow> string\<close> where
  \<open>MTEXT_contents fmt opts [] = []\<close>
| \<open>MTEXT_contents fmt opts (MText s # contents) = s @ MTEXT_contents fmt opts contents\<close>
| \<open>MTEXT_contents fmt opts (MSeq content # contents) =
     MTEXT_contents fmt opts content @ MTEXT_contents fmt opts contents\<close>
| \<open>MTEXT_contents fmt opts (MStack numerator separator denominator # contents) =
     jsx fmt ''tspan''
       [(''children'',
         Arr [jsx fmt ''tspan'' [(''dy'', Str ''-.5em''), (''children'', Str numerator)],
              jsx fmt ''tspan''
                [(''dy'', Str ''1em''),
                 (''dx'', Str (numToString fmt (jdiv (Fin (real (length numerator))) (Fin (- 2))) @ ''em'')),
                 (''children'', Str denominator)]])]
     @ MTEXT_contents fmt opts contents\<close>
| \<open>MTEXT_contents fmt opts (MFont f b i # contents) =
     (if f \<noteq> []
      then (let font = resolvedFont opts
                         \<lparr>font_family = f, font_weight = Fin (if b then 700 else 400),
                          font_style = (if i then Some ''italic'' else None), font_scale = None\<rparr>
            in jsx fmt ''tspan''
                 [(''font-family'', Str (font_family font)),
                  (''font-weight'', Num (font_weight font)),
                  (''font-style'', strOpt (font_style font)),
                  (''font-size'',
                     case font_scale font of
                       None \<Rightarrow> Undefined
                     | Some sc \<Rightarrow>
                         if truthyNum sc \<and> \<not> jeq sc (Fin 1) then Str (numToString fmt sc @ ''em'')
                         else Undefined),
                  (''children'', Str (MTEXT_contents fmt opts contents))])
      else MTEXT_contents fmt opts contents)\<close>
| \<open>MTEXT_contents fmt opts (MOblique q # contents) =
     (if truthyNum q
      then jsx fmt ''tspan''
             [(''font-style'', Str (''oblique '' @ numToString fmt q @ ''deg'')),
              (''children'', Str (MTEXT_contents fmt opts contents))]
      else MTEXT_contents fmt opts contents)\<close>
| \<open>MTEXT_contents fmt opts (MOther # contents) = MTEXT_contents fmt opts contents\<close>

definition MTEXT :: \<open>host \<Rightarrow> options \<Rightarrow> dxf \<Rightarrow> dxfrecord \<Rightarrow> error + svg option\<close> where
  \<open>MTEXT h opts d entity =
     bindE (dollar_numbers (numberText h) entity [10, 40]) (\<lambda>ns.
     bindE (dollar_number (numberText h) entity 20 None) (\<lambda>y0.
     bindE (MTEXT_angle (numberText h) entity) (\<lambda>angle.
     (let x = ns ! 0; hh = ns ! 1; y = jneg y0;
          nt = numToString (numberText h);
          ap = MTEXT_attachmentPoint (dollar_trim entity 71);
          contents = concat (getGroupCodeValues entity 3)
                     @ (case getGroupCodeValue entity 1 of None \<Rightarrow> [] | Some s \<Rightarrow> s)
      in Inr (Some (jsx (numberText h) ''text''
                      (commonAttributes entity
                       @ [(''x'', Num x), (''y'', Num y), (''fill'', Str (color opts d entity)),
                          (''font-size'', Num hh),
                          (''dominant-baseline'', strOpt (fst ap)),
                          (''text-anchor'', strOpt (snd ap)),
                          (''transform'',
                             if truthyNum angle
                             then Str (''rotate('' @ nt (jneg angle) @ '' '' @ nt x @ '' '' @ nt y @ '')'')
                             else Undefined),
                          (''children'',
                             Str (MTEXT_contents (numberText h) opts (parseDxfMTextContent h contents)))]),
                    [x, jadd x (jmul hh (Fin (real (length contents))))],
                    [y, jadd y hh]))))))\<close>

subsection \<open>Dimensions\<close>

text \<open>
  \<open>collectDimensionStyleOverrides\<close>: the pairs after the \<open>DSTYLE\<close> marker and its opening
  brace, up to the next group 1002. Reading the pair after the last pair of the record
  is the host's \<open>TypeError\<close>. \<open>None\<close> is \<open>undefined\<close>: the record has no marker.
\<close>

fun styleOverrides_from :: \<open>dxfrecord \<Rightarrow> (jsnum \<rightharpoonup> string) \<Rightarrow> error + (jsnum \<rightharpoonup> string)\<close> where
  \<open>styleOverrides_from [] result = Inr result\<close>
| \<open>styleOverrides_from [p] result =
     (if fst p = 1002 then Inr result
      else if fst p = 1070 then Inl TypeError
      else Inr result)\<close>
| \<open>styleOverrides_from (p # q # r) result =
     (if fst p = 1002 then Inr result
      else if fst p = 1070 then styleOverrides_from r (result(StringToNumber (snd p) \<mapsto> snd q))
      else styleOverrides_from (q # r) result)\<close>

fun collectDimensionStyleOverrides :: \<open>dxfrecord \<Rightarrow> error + (jsnum \<rightharpoonup> string) option\<close> where
  \<open>collectDimensionStyleOverrides [] = Inr None\<close>
| \<open>collectDimensionStyleOverrides [p] =
     (if fst p = 1000 \<and> trimJs (snd p) = ''DSTYLE'' then Inl TypeError else Inr None)\<close>
| \<open>collectDimensionStyleOverrides (p # q # r) =
     (if fst p = 1000 \<and> trimJs (snd p) = ''DSTYLE'' \<and> fst q = 1002 \<and> trimJs (snd q) = ''{''
      then bindE (styleOverrides_from r Map.empty) (\<lambda>result. Inr (Some result))
      else collectDimensionStyleOverrides (q # r))\<close>

text \<open>One variable of \<open>collectDimensionStyles\<close>: override, style table entry, header, default.\<close>

definition dimensionStyle :: \<open>dxf \<Rightarrow> dxfrecord option \<Rightarrow> (jsnum \<rightharpoonup> string) option \<Rightarrow> string \<Rightarrow> int \<Rightarrow> int \<Rightarrow> jsnum \<Rightarrow> jsnum\<close> where
  \<open>dimensionStyle d dimstyle styleOverrides variableName groupCode headerGroupCode defaultValue =
     (let v0 = (case styleOverrides of None \<Rightarrow> None | Some m \<Rightarrow> m (Fin (of_int groupCode)));
          v1 = (case v0 of
                  Some v \<Rightarrow> Some v
                | None \<Rightarrow> (case dimstyle of None \<Rightarrow> None | Some r \<Rightarrow> getGroupCodeValue r groupCode));
          v2 = (case v1 of
                  Some v \<Rightarrow> Some v
                | None \<Rightarrow>
                    (case HEADER d (''$'' @ variableName) of
                       None \<Rightarrow> None
                     | Some r \<Rightarrow> getGroupCodeValue r headerGroupCode))
      in case v2 of None \<Rightarrow> defaultValue | Some v \<Rightarrow> StringToNumber v)\<close>

definition collectDimensionStyles :: \<open>dxf \<Rightarrow> dxfrecord \<Rightarrow> error + dimstyles\<close> where
  \<open>collectDimensionStyles d dimension =
     (let styleName = getGroupCodeValue dimension 3;
          dimstyle = find (\<lambda>r. getGroupCodeValue r 2 = styleName) (TABLES_DIMSTYLE d)
      in bindE (collectDimensionStyleOverrides dimension) (\<lambda>styleOverrides.
         Inr \<lparr>DIMSCALE = dimensionStyle d dimstyle styleOverrides ''DIMSCALE'' 40 40 (Fin 1),
              DIMTP = dimensionStyle d dimstyle styleOverrides ''DIMTP'' 47 40 NaN,
              DIMTM = dimensionStyle d dimstyle styleOverrides ''DIMTM'' 48 40 NaN,
              DIMTOL = dimensionStyle d dimstyle styleOverrides ''DIMTOL'' 71 70 (Fin 0),
              DIMTXT = dimensionStyle d dimstyle styleOverrides ''DIMTXT'' 140 40 (Fin 1),
              DIMLFAC = dimensionStyle d dimstyle styleOverrides ''DIMLFAC'' 144 40 (Fin 1),
              DIMCLRT = dimensionStyle d dimstyle styleOverrides ''DIMCLRT'' 178 70 NaN,
              DIMDEC = dimensionStyle d dimstyle styleOverrides ''DIMDEC'' 271 70 (Fin 4)\<rparr>))\<close>

text \<open>
  What a branch of the switch of \<open>DIMENSION\<close> leaves behind: the measurement, the leader
  markup, the angle (which may stay \<open>undefined\<close>), the two alignments and the coordinates
  pushed after the text position.
\<close>

record dimension_geometry =
  dg_measurement :: jsnum
  dg_lineElements :: string
  dg_angle :: \<open>jsnum option\<close>
  dg_dominantBaseline :: string
  dg_textAnchor :: string
  dg_xs :: \<open>jsnum list\<close>
  dg_ys :: \<open>jsnum list\<close>

definition dimension_path :: \<open>(real \<Rightarrow> string) \<Rightarrow> (jsnum \<times> jsnum) list \<Rightarrow> string\<close> where
  \<open>dimension_path fmt pts =
     jsx fmt ''path''
       [(''stroke'', Str ''currentColor''),
        (''d'', Str (''M'' @ joinWith ''L''
                       (map (\<lambda>p. numToString fmt (fst p) @ '' '' @ numToString fmt (snd p)) pts)))]\<close>

definition DIMENSION_linear :: \<open>(real \<Rightarrow> string) \<Rightarrow> dxfrecord \<Rightarrow> error + dimension_geometry\<close> where
  \<open>DIMENSION_linear fmt entity =
     bindE (dollar_numbers fmt entity [10, 13, 14]) (\<lambda>xs.
     bindE (dollar_negates fmt entity [20, 23, 24]) (\<lambda>ys.
     bindE (dollar_number fmt entity 50 (Some (Fin 0))) (\<lambda>a.
     (let x0 = xs ! 0; x1 = xs ! 1; x2 = xs ! 2; y0 = ys ! 0; y1 = ys ! 1; y2 = ys ! 2;
          angle = mathRound (orNum (jneg a) (Fin 0))
      in if jeq (jrem angle (Fin 180)) (Fin 0)
         then Inr \<lparr>dg_measurement = jabs (jsub x1 x2),
                   dg_lineElements = dimension_path fmt [(x1, y1), (x1, y0), (x2, y0), (x2, y2)],
                   dg_angle = Some (Fin 0),
                   dg_dominantBaseline = ''text-after-edge'', dg_textAnchor = ''middle'',
                   dg_xs = [x1, x2], dg_ys = [y1, y2]\<rparr>
         else Inr \<lparr>dg_measurement = jabs (jsub y1 y2),
                   dg_lineElements = dimension_path fmt [(x1, y1), (x0, y1), (x0, y2), (x2, y2)],
                   dg_angle = Some angle,
                   dg_dominantBaseline = ''text-after-edge'', dg_textAnchor = ''middle'',
                   dg_xs = [x1, x2], dg_ys = [y1, y2]\<rparr>))))\<close>

definition DIMENSION_radial :: \<open>(real \<Rightarrow> string) \<Rightarrow> dxfrecord \<Rightarrow> jsnum \<Rightarrow> jsnum \<Rightarrow> error + dimension_geometry\<close> where
  \<open>DIMENSION_radial fmt entity tx ty =
     bindE (dollar_numbers fmt entity [10, 15]) (\<lambda>xs.
     bindE (dollar_negates fmt entity [20, 25]) (\<lambda>ys.
     (let x0 = xs ! 0; x1 = xs ! 1; y0 = ys ! 0; y1 = ys ! 1
      in Inr \<lparr>dg_measurement = mathHypot (jsub x0 x1) (jsub y0 y1),
              dg_lineElements = dimension_path fmt [(x1, y1), (tx, ty)],
              dg_angle = None,
              dg_dominantBaseline = ''text-after-edge'', dg_textAnchor = ''middle'',
              dg_xs = [x0, x1], dg_ys = [y0, y1]\<rparr>)))\<close>

definition DIMENSION_ordinate :: \<open>(real \<Rightarrow> string) \<Rightarrow> dxfrecord \<Rightarrow> jsnum \<Rightarrow> jsnum \<Rightarrow> jsnum \<Rightarrow> error + dimension_geometry\<close> where
  \<open>DIMENSION_ordinate fmt entity dimensionType tx ty =
     bindE (dollar_numbers fmt entity [13, 14]) (\<lambda>xs.
     bindE (dollar_negates fmt entity [23, 24]) (\<lambda>ys.
     (let x1 = xs ! 0; x2 = xs ! 1; y1 = ys ! 0; y2 = ys ! 1
      in if truthyNum (jand dimensionType (Fin 64))
         then bindE (dollar_number fmt entity 10 None) (\<lambda>x0.
              Inr \<lparr>dg_measurement = jabs (jsub x0 x1),
                   dg_lineElements = dimension_path fmt [(x1, y1), (x1, y2), (x2, y2), (tx, ty)],
                   dg_angle = Some (Fin (- 90)),
                   dg_dominantBaseline = ''central'', dg_textAnchor = ''middle'',
                   dg_xs = [x1, x2], dg_ys = [y1, y2]\<rparr>)
         else bindE (dollar_number fmt entity 20 None) (\<lambda>y.
              Inr \<lparr>dg_measurement = jabs (jsub (jneg y) y1),
                   dg_lineElements = dimension_path fmt [(x1, y1), (x2, y1), (x2, y2), (tx, ty)],
                   dg_angle = None,
                   dg_dominantBaseline = ''central'', dg_textAnchor = ''middle'',
                   dg_xs = [x1, x2], dg_ys = [y1, y2]\<rparr>))))\<close>

definition DIMENSION_text :: \<open>host \<Rightarrow> options \<Rightarrow> dxf \<Rightarrow> dxfrecord \<Rightarrow> dimstyles \<Rightarrow> jsnum \<Rightarrow> jsnum \<Rightarrow> dimension_geometry \<Rightarrow> error + svg option\<close> where
  \<open>DIMENSION_text h opts d entity dimStyles tx ty g =
     bindE (dimensionValueToMText (numberText h) (dg_measurement g) entity dimStyles) (\<lambda>mtext.
     (let nt = numToString (numberText h);
          hh = jmul (DIMTXT dimStyles) (DIMSCALE dimStyles);
          textColor = DIMCLRT dimStyles;
          textElement =
            jsx (numberText h) ''text''
              [(''x'', Num tx), (''y'', Num ty),
               (''fill'',
                  Str (if isNaN textColor then color opts d entity
                       else if jeq textColor (Fin 0) then ''currentColor''
                       else resolveColorIndex opts textColor)),
               (''font-size'', Num hh),
               (''dominant-baseline'', Str (dg_dominantBaseline g)),
               (''text-anchor'', Str (dg_textAnchor g)),
               (''transform'',
                  case dg_angle g of
                    None \<Rightarrow> Undefined
                  | Some angle \<Rightarrow>
                      if truthyNum angle
                      then Str (''rotate('' @ nt angle @ '' '' @ nt tx @ '' '' @ nt ty @ '')'')
                      else Num angle),
               (''children'',
                  Str (MTEXT_contents (numberText h) opts (parseDxfMTextContent h mtext)))]
      in Inr (Some (jsx (numberText h) ''g''
                      (commonAttributes entity
                       @ [(''color'', Str (color opts d entity)),
                          (''stroke-dasharray'', strOpt (strokeDasharray opts d entity)),
                          (''style'', strOpt (extrusionStyle entity)),
                          (''children'', Str (dg_lineElements g @ textElement))]),
                    tx # dg_xs g, ty # dg_ys g))))\<close>

definition DIMENSION :: \<open>host \<Rightarrow> options \<Rightarrow> dxf \<Rightarrow> dxfrecord \<Rightarrow> diag list \<times> (error + svg option)\<close> where
  \<open>DIMENSION h opts d entity =
     (case collectDimensionStyles d entity of
        Inl e \<Rightarrow> ([], Inl e)
      | Inr dimStyles \<Rightarrow>
     (case dollar_number (numberText h) entity 11 None of
        Inl e \<Rightarrow> ([], Inl e)
      | Inr tx \<Rightarrow>
     (case dollar_number (numberText h) entity 21 None of
        Inl e \<Rightarrow> ([], Inl e)
      | Inr ty0 \<Rightarrow>
     (case dollar_number (numberText h) entity 70 (Some (Fin 0)) of
        Inl e \<Rightarrow> ([], Inl e)
      | Inr dimensionType \<Rightarrow>
          (let ty = jneg ty0; sub = toInt32 dimensionType AND 7
           in if sub = 0 \<or> sub = 1
              then ([], bindE (DIMENSION_linear (numberText h) entity)
                          (DIMENSION_text h opts d entity dimStyles tx ty))
              else if sub = 2 \<or> sub = 5
              then ([(Text ''Angular dimension cannot be rendered yet.'', [entity])], Inr None)
              else if sub = 3 \<or> sub = 4
              then ([], bindE (DIMENSION_radial (numberText h) entity tx ty)
                          (DIMENSION_text h opts d entity dimStyles tx ty))
              else if sub = 6
              then ([], bindE (DIMENSION_ordinate (numberText h) entity dimensionType tx ty)
                          (DIMENSION_text h opts d entity dimStyles tx ty))
              else ([(Text ''Unknown dimension type.'', [entity])], Inr None))))))\<close>

subsection \<open>Tables\<close>

text \<open>The cells of a table: the record cut at every group 171.\<close>

fun tableCells_from :: \<open>dxfrecord \<Rightarrow> int \<Rightarrow> nat list \<Rightarrow> dxfrecord list\<close> where
  \<open>tableCells_from entity index [] = [sliceJs index (int (length entity)) entity]\<close>
| \<open>tableCells_from entity index (i # is) =
     (if fst (entity ! i) = 171
      then sliceJs index (int i) entity # tableCells_from entity (int i) is
      else tableCells_from entity index is)\<close>

definition tableCells :: \<open>dxfrecord \<Rightarrow> dxfrecord list\<close> where
  \<open>tableCells entity =
     (let index = findIndex (\<lambda>groupCode. fst groupCode = 171) entity
      in tableCells_from entity index [nat (index + 1) ..< length entity])\<close>

text \<open>The running sums of the row heights and of the column widths, after their 0.\<close>

fun offsets_from :: \<open>jsnum \<Rightarrow> jsnum list \<Rightarrow> jsnum list\<close> where
  \<open>offsets_from l [] = []\<close>
| \<open>offsets_from l (sz # sizes) = jadd l sz # offsets_from (jadd l sz) sizes\<close>

definition offsets :: \<open>jsnum list \<Rightarrow> jsnum list\<close> where
  \<open>offsets sizes = Fin 0 # offsets_from (Fin 0) sizes\<close>

text \<open>
  The loop over the cells, with the column and row counters: the markup it appends and
  the calls it makes to the sink.
\<close>

fun tableCells_svg :: \<open>host \<Rightarrow> options \<Rightarrow> dxfrecord \<Rightarrow> jsnum list \<Rightarrow> jsnum list \<Rightarrow> string \<Rightarrow> string \<Rightarrow> dxfrecord list \<Rightarrow> nat \<Rightarrow> nat \<Rightarrow> diag list \<times> string\<close> where
  \<open>tableCells_svg h opts entity xs ys lineColor textColor [] xi yi = ([], [])\<close>
| \<open>tableCells_svg h opts entity xs ys lineColor textColor (cell # cells) xi yi =
     (let x = nthOpt xs (int xi);
          y = nthOpt ys (int yi);
          cellColor = unaryPlus (getGroupCodeValue cell 64);
          border =
            (if \<not> truthyNum (unaryPlus (getGroupCodeValue cell 173))
             then jsx (numberText h) ''line''
                    [(''x1'', numOpt x), (''y1'', numOpt y), (''x2'', numOpt x),
                     (''y2'', numOpt (nthOpt ys (int yi + 1))), (''stroke'', Str lineColor)]
             else []);
          isBlock = (dollar_trim cell 171 = Some ''2'');
          content =
            (if isBlock then []
             else jsx (numberText h) ''text''
                    [(''x'', numOpt x), (''y'', numOpt y),
                     (''fill'', Str (if \<not> isNaN cellColor then resolveColorIndex opts cellColor
                                     else textColor)),
                     (''children'',
                        Str (MTEXT_contents (numberText h) opts
                               (parseDxfMTextContent h
                                  (case getGroupCodeValue cell 1 of None \<Rightarrow> [] | Some s \<Rightarrow> s))))]);
          warned =
            (if isBlock
             then [(Text ''Table cell type "block" cannot be rendered yet.'', [entity, cell])]
             else []);
          nxt = (if int (xi + 1) = int (length xs) - 1 then (0, yi + 1) else (xi + 1, yi));
          rest = tableCells_svg h opts entity xs ys lineColor textColor cells (fst nxt) (snd nxt)
      in (warned @ fst rest, border @ content @ snd rest))\<close>

definition ACAD_TABLE :: \<open>host \<Rightarrow> options \<Rightarrow> dxf \<Rightarrow> dxfrecord \<Rightarrow> diag list \<times> (error + svg option)\<close> where
  \<open>ACAD_TABLE h opts d entity =
     (let cells = tableCells entity;
          ys = offsets (map StringToNumber (getGroupCodeValues entity 141));
          xs = offsets (map StringToNumber (getGroupCodeValues entity 142));
          lineColor = color opts d entity;
          textColor = resolveColorIndex opts (unaryPlus (getGroupCodeValue entity 64));
          rows = concat (map (\<lambda>y. jsx (numberText h) ''line''
                                      [(''stroke'', Str lineColor), (''x1'', Str ''0''), (''y1'', Num y),
                                       (''x2'', Num (last xs)), (''y2'', Num y)]) ys);
          body = tableCells_svg h opts entity xs ys lineColor textColor cells 0 0;
          closing = jsx (numberText h) ''line''
                      [(''x1'', Num (last xs)), (''y1'', Str ''0''), (''x2'', Num (last xs)),
                       (''y2'', Num (last ys)), (''stroke'', Str lineColor)];
          s = rows @ snd body @ closing;
          nt = numToString (numberText h)
      in (fst body,
          bindE (dollar_number (numberText h) entity 10 None) (\<lambda>x.
          bindE (dollar_number (numberText h) entity 20 None) (\<lambda>y0.
          (let y = jneg y0
           in Inr (Some (jsx (numberText h) ''g''
                           (commonAttributes entity
                            @ [(''font-size'', strOpt (dollar_trim entity 140)),
                               (''dominant-baseline'', Str ''text-before-edge''),
                               (''transform'', Str (''translate('' @ nt x @ '','' @ nt y @ '')'')),
                               (''children'', Str s)]),
                         map (\<lambda>x'. jadd x' x) xs,
                         map (\<lambda>y'. jadd y' y) ys)))))))\<close>

section \<open>Block instancing and the scene assembler\<close>

record bbox =
  bbox_x :: jsnum
  bbox_y :: jsnum
  bbox_w :: jsnum
  bbox_h :: jsnum

text \<open>
  A scene as the model returns it: the calls made to the sink, the markup, and the
  bounding box.
\<close>

type_synonym scene = \<open>diag list \<times> string \<times> bbox\<close>

text \<open>
  \<open>INSERT\<close> calls the scene assembler on the block; \<open>nested\<close> is that call. It has no
  value (\<open>None\<close>) when the nesting of blocks does not end within the depth the model
  allows, and then \<open>INSERT\<close> has none either.
\<close>

definition block_of :: \<open>dxf \<Rightarrow> dxfrecord \<Rightarrow> dxfrecord list option\<close> where
  \<open>block_of d entity =
     (case BLOCKS d (propKey (getGroupCodeValue entity 2)) of
        None \<Rightarrow> None
      | Some blk \<Rightarrow>
          Some (sliceJs (if blk \<noteq> [] \<and> getGroupCodeValue (hd blk) 0 = Some ''BLOCK'' then 1 else 0)
                  (if blk \<noteq> [] \<and> getGroupCodeValue (last blk) 0 = Some ''ENDBLK''
                   then - 1 else int (length blk))
                  blk))\<close>

text \<open>The local \<open>transform\<close> of \<open>INSERT\<close>: its non-identity parts, joined by spaces.\<close>

definition INSERT_transform :: \<open>(real \<Rightarrow> string) \<Rightarrow> jsnum \<Rightarrow> jsnum \<Rightarrow> jsnum \<Rightarrow> jsnum \<Rightarrow> jsnum \<Rightarrow> string\<close> where
  \<open>INSERT_transform fmt x y xscale yscale rot =
     joinWith '' ''
       (filter (\<lambda>s. s \<noteq> [])
          [if truthyNum x \<or> truthyNum y
           then ''translate('' @ numToString fmt x @ '','' @ numToString fmt y @ '')'' else [],
           if \<not> jeq xscale (Fin 1) \<or> \<not> jeq yscale (Fin 1)
           then ''scale('' @ numToString fmt xscale @ '','' @ numToString fmt yscale @ '')'' else [],
           if truthyNum rot then ''rotate('' @ numToString fmt rot @ '')'' else []])\<close>

definition INSERT :: \<open>host \<Rightarrow> options \<Rightarrow> dxf \<Rightarrow> (dxfrecord list option \<Rightarrow> scene option) \<Rightarrow> dxfrecord \<Rightarrow> (diag list \<times> (error + svg option)) option\<close> where
  \<open>INSERT h opts d nested entity =
     (case dollar_number (numberText h) entity 10 (Some (Fin 0)) of
        Inl e \<Rightarrow> Some ([], Inl e)
      | Inr x \<Rightarrow>
     (case dollar_number (numberText h) entity 20 (Some (Fin 0)) of
        Inl e \<Rightarrow> Some ([], Inl e)
      | Inr y0 \<Rightarrow>
     (case dollar_number (numberText h) entity 50 None of
        Inl e \<Rightarrow> Some ([], Inl e)
      | Inr rotate0 \<Rightarrow>
     (case dollar_number (numberText h) entity 41 (Some (Fin 1)) of
        Inl e \<Rightarrow> Some ([], Inl e)
      | Inr xscale0 \<Rightarrow>
     (case dollar_number (numberText h) entity 42 (Some (Fin 1)) of
        Inl e \<Rightarrow> Some ([], Inl e)
      | Inr yscale0 \<Rightarrow>
          (let y = jneg y0; rotate = jneg rotate0;
               xscale = orNum xscale0 (Fin 1); yscale = orNum yscale0 (Fin 1);
               transform = INSERT_transform (numberText h) x y xscale yscale rotate
           in case nested (block_of d entity) of
                None \<Rightarrow> None
              | Some (lg, contents, box) \<Rightarrow>
                  Some (lg,
                    Inr (Some (jsx (numberText h) ''g''
                                 (commonAttributes entity
                                  @ [(''color'', strOpt (underscore_color opts d entity)),
                                     (''transform'', Str transform),
                                     (''children'', Str contents)]),
                               [jadd x (jmul (bbox_x box) xscale),
                                jadd x (jmul (jadd (bbox_x box) (bbox_w box)) xscale)],
                               [jadd y (jmul (bbox_y box) yscale),
                                jadd y (jmul (jadd (bbox_y box) (bbox_h box)) yscale)])))))))))\<close>

text \<open>
  The dispatch table of \<open>createEntitySvgMap\<close>, by type tag: its fourteen own keys. Every
  interpreter is given as a function of the entity and its vertices to the calls it
  made to the sink and its result.
\<close>

type_synonym interpreter = \<open>dxfrecord \<Rightarrow> dxfrecord list \<Rightarrow> (diag list \<times> (error + svg option)) option\<close>

definition createEntitySvgMap :: \<open>host \<Rightarrow> options \<Rightarrow> dxf \<Rightarrow> (dxfrecord list option \<Rightarrow> scene option) \<Rightarrow> string \<Rightarrow> interpreter option\<close> where
  \<open>createEntitySvgMap h opts d nested entityType =
     (if entityType = ''POINT'' then Some (\<lambda>entity vertices. Some ([], Inr POINT))
      else if entityType = ''LINE'' then Some (\<lambda>entity vertices. Some ([], LINE h opts d entity))
      else if entityType = ''POLYLINE''
      then Some (\<lambda>entity vertices. Some ([], POLYLINE h opts d entity vertices))
      else if entityType = ''LWPOLYLINE''
      then Some (\<lambda>entity vertices. Some ([], LWPOLYLINE h opts d entity))
      else if entityType = ''CIRCLE'' then Some (\<lambda>entity vertices. Some ([], CIRCLE h opts d entity))
      else if entityType = ''ARC'' then Some (\<lambda>entity vertices. Some ([], ARC h opts d entity))
      else if entityType = ''ELLIPSE'' then Some (\<lambda>entity vertices. Some (ELLIPSE h opts d entity))
      else if entityType = ''LEADER'' then Some (\<lambda>entity vertices. Some ([], LEADER h opts d entity))
      else if entityType = ''HATCH'' then Some (\<lambda>entity vertices. Some ([], HATCH h opts d entity))
      else if entityType = ''SOLID'' then Some (\<lambda>entity vertices. Some ([], SOLID h opts d entity))
      else if entityType = ''TEXT'' then Some (\<lambda>entity vertices. Some ([], TEXT h opts d entity))
      else if entityType = ''MTEXT'' then Some (\<lambda>entity vertices. Some ([], MTEXT h opts d entity))
      else if entityType = ''DIMENSION''
      then Some (\<lambda>entity vertices. Some (DIMENSION h opts d entity))
      else if entityType = ''ACAD_TABLE''
      then Some (\<lambda>entity vertices. Some (ACAD_TABLE h opts d entity))
      else if entityType = ''INSERT'' then Some (\<lambda>entity vertices. INSERT h opts d nested entity)
      else None)\<close>

subsection \<open>The scene assembler\<close>

text \<open>The mutable state of \<open>entitiesSvg\<close>, with the calls made to the sink so far.\<close>

record assembly =
  as_log :: \<open>diag list\<close>
  as_s :: string
  as_minX :: jsnum
  as_maxX :: jsnum
  as_minY :: jsnum
  as_maxY :: jsnum

definition warn :: \<open>message \<Rightarrow> dxfrecord list \<Rightarrow> assembly \<Rightarrow> assembly\<close> where
  \<open>warn m context st = st\<lparr>as_log := as_log st @ [(m, context)]\<rparr>\<close>

definition add_svg :: \<open>svg \<Rightarrow> assembly \<Rightarrow> assembly\<close> where
  \<open>add_svg svg st =
     (let xs = filter isFinite (fst (snd svg));
          ys = filter isFinite (snd (snd svg))
      in st\<lparr>as_s := as_s st @ fst svg,
            as_minX := mathMin (as_minX st # xs),
            as_maxX := mathMax (as_maxX st # xs),
            as_minY := mathMin (as_minY st # ys),
            as_maxY := mathMax (as_maxY st # ys)\<rparr>)\<close>

text \<open>
  The dispatch table is an object literal, so a type tag that is none of its own keys
  but names a property of the object prototype finds that property. Called with the
  entity, the prototype's \<open>constructor\<close> returns the entity itself, which the assembler
  then reads as a markup and two coordinate lists; \<open>toString\<close> returns the text
  \<open>[object Undefined]\<close>, of which the first character is appended before the read of its
  second as a list fails; every other such property fails at once. Each failure is the
  host's \<open>TypeError\<close>, raised inside the \<open>try\<close>.
\<close>

definition inheritedKeys :: \<open>string list\<close> where
  \<open>inheritedKeys =
     [''constructor'', ''hasOwnProperty'', ''isPrototypeOf'', ''propertyIsEnumerable'',
      ''toLocaleString'', ''toString'', ''valueOf'', ''__proto__'', ''__defineGetter__'',
      ''__defineSetter__'', ''__lookupGetter__'', ''__lookupSetter__'']\<close>

definition pairText :: \<open>(real \<Rightarrow> string) \<Rightarrow> int \<times> string \<Rightarrow> string\<close> where
  \<open>pairText fmt p = numToString fmt (Fin (of_int (fst p))) @ '','' @ snd p\<close>

definition pairNumbers :: \<open>int \<times> string \<Rightarrow> jsnum list\<close> where
  \<open>pairNumbers p = [Fin (of_int (fst p)), StringToNumber (snd p)]\<close>

definition inherited_entry :: \<open>(real \<Rightarrow> string) \<Rightarrow> string \<Rightarrow> dxfrecord \<Rightarrow> assembly \<Rightarrow> assembly\<close> where
  \<open>inherited_entry fmt entityType entity st =
     (if entityType = ''constructor''
      then (case entity of
              [] \<Rightarrow> warn (ErrorOccurred TypeError) [entity] st
            | [p] \<Rightarrow> warn (ErrorOccurred TypeError) [entity] (st\<lparr>as_s := as_s st @ pairText fmt p\<rparr>)
            | [p, q] \<Rightarrow> warn (ErrorOccurred TypeError) [entity] (st\<lparr>as_s := as_s st @ pairText fmt p\<rparr>)
            | p # q # r # rest \<Rightarrow> add_svg (pairText fmt p, pairNumbers q, pairNumbers r) st)
      else if entityType = ''toString''
      then warn (ErrorOccurred TypeError) [entity] (st\<lparr>as_s := as_s st @ ''[''\<rparr>)
      else warn (ErrorOccurred TypeError) [entity] st)\<close>

text \<open>
  The body of the \<open>try\<close> with its \<open>catch\<close>, for one entity and its vertices. It has no
  value when the interpreter has none.
\<close>

definition dispatch :: \<open>(real \<Rightarrow> string) \<Rightarrow> (string \<Rightarrow> interpreter option) \<Rightarrow> string \<Rightarrow> dxfrecord \<Rightarrow> dxfrecord list \<Rightarrow> assembly \<Rightarrow> assembly option\<close> where
  \<open>dispatch fmt entitySvgMap entityType entity vertices st =
     (case entitySvgMap entityType of
        None \<Rightarrow>
          if entityType \<in> set inheritedKeys then Some (inherited_entry fmt entityType entity st)
          else Some (warn (Text (''Unknown entity type: '' @ entityType)) [entity] st)
      | Some entitySvg \<Rightarrow>
          (case entitySvg entity vertices of
             None \<Rightarrow> None
           | Some (lg, Inl e) \<Rightarrow>
               Some (warn (ErrorOccurred e) [entity] (st\<lparr>as_log := as_log st @ lg\<rparr>))
           | Some (lg, Inr None) \<Rightarrow> Some (st\<lparr>as_log := as_log st @ lg\<rparr>)
           | Some (lg, Inr (Some svg)) \<Rightarrow> Some (add_svg svg (st\<lparr>as_log := as_log st @ lg\<rparr>))))\<close>

definition isVertex :: \<open>dxfrecord \<Rightarrow> bool\<close> where
  \<open>isVertex r = (getGroupCodeValue r 0 = Some ''VERTEX'')\<close>

text \<open>
  The records after an entity: the vertices the inner \<open>while\<close> collects, and what is left
  after them and after a \<open>SEQEND\<close> that closes a non-empty run of vertices.
\<close>

definition vertices_of :: \<open>dxfrecord list \<Rightarrow> dxfrecord list\<close> where
  \<open>vertices_of rest = takeWhile isVertex rest\<close>

definition after_vertices :: \<open>dxfrecord list \<Rightarrow> dxfrecord list\<close> where
  \<open>after_vertices rest =
     (let r = dropWhile isVertex rest
      in if vertices_of rest \<noteq> [] \<and> r \<noteq> [] \<and> getGroupCodeValue (hd r) 0 = Some ''SEQEND''
         then tl r else r)\<close>

lemma length_after_vertices: \<open>length (after_vertices rest) \<le> length rest\<close>
  using length_dropWhile_le [of isVertex rest]
  by (auto simp: after_vertices_def Let_def)

function entitiesLoop :: \<open>(real \<Rightarrow> string) \<Rightarrow> (string \<Rightarrow> interpreter option) \<Rightarrow> dxfrecord list \<Rightarrow> assembly \<Rightarrow> assembly option\<close> where
  \<open>entitiesLoop fmt entitySvgMap [] st = Some st\<close>
| \<open>entitiesLoop fmt entitySvgMap (entity # rest) st =
     (if \<not> truthyStr (getGroupCodeValue entity 0) then entitiesLoop fmt entitySvgMap rest st
      else (case dispatch fmt entitySvgMap (the (getGroupCodeValue entity 0)) entity
                   (vertices_of rest) st of
              None \<Rightarrow> None
            | Some st' \<Rightarrow> entitiesLoop fmt entitySvgMap (after_vertices rest) st'))\<close>
  by pat_completeness auto
termination
  by (relation \<open>measure (\<lambda>(fmt, entitySvgMap, entities, st). length entities)\<close>)
    (auto simp: length_after_vertices less_Suc_eq_le)

definition initial :: \<open>assembly\<close> where
  \<open>initial = \<lparr>as_log = [], as_s = [], as_minX = PInf, as_maxX = NInf, as_minY = PInf, as_maxY = NInf\<rparr>\<close>

definition scene_of :: \<open>assembly \<Rightarrow> scene\<close> where
  \<open>scene_of st =
     (as_log st, as_s st,
      \<lparr>bbox_x = as_minX st, bbox_y = as_minY st,
       bbox_w = jsub (as_maxX st) (as_minX st), bbox_h = jsub (as_maxY st) (as_minY st)\<rparr>)\<close>

text \<open>
  \<open>entitiesSvg\<close>, with the depth of block nesting it may still enter: at depth 0 it has
  no value. A document whose blocks nest without end has no scene at any depth; in the
  program that recursion ends in the host's stack overflow.
\<close>

primrec entitiesSvg :: \<open>nat \<Rightarrow> host \<Rightarrow> options \<Rightarrow> dxf \<Rightarrow> dxfrecord list option \<Rightarrow> scene option\<close> where
  \<open>entitiesSvg 0 h opts d = (\<lambda>entities. None)\<close>
| \<open>entitiesSvg (Suc depth) h opts d =
     (\<lambda>entities.
        case entities of
          None \<Rightarrow> Some (scene_of initial)
        | Some es \<Rightarrow>
            map_option scene_of
              (entitiesLoop (numberText h)
                 (createEntitySvgMap h opts d (entitiesSvg depth h opts d)) es initial))\<close>

section \<open>Orchestration\<close>

text \<open>The configuration as the caller gives it: every entry is optional.\<close>

record config =
  cfg_resolveColorIndex :: \<open>(jsnum \<Rightarrow> string) option\<close>
  cfg_resolveFont :: \<open>(font \<Rightarrow> font option) option\<close>

definition defaultOptions :: \<open>host \<Rightarrow> options\<close> where
  \<open>defaultOptions h =
     \<lparr>resolveColorIndex = (\<lambda>index. case DXF_COLOR_HEX h index of None \<Rightarrow> ''#888'' | Some c \<Rightarrow> c),
      resolveFont = None\<rparr>\<close>

definition resolvedOptions :: \<open>host \<Rightarrow> config option \<Rightarrow> options\<close> where
  \<open>resolvedOptions h cfg =
     (case cfg of
        None \<Rightarrow> defaultOptions h
      | Some c \<Rightarrow>
          \<lparr>resolveColorIndex =
             (case cfg_resolveColorIndex c of
                None \<Rightarrow> resolveColorIndex (defaultOptions h)
              | Some f \<Rightarrow> f),
           resolveFont = cfg_resolveFont c\<rparr>)\<close>

definition createSvgContents :: \<open>nat \<Rightarrow> host \<Rightarrow> dxf \<Rightarrow> config option \<Rightarrow> scene option\<close> where
  \<open>createSvgContents depth h d cfg = entitiesSvg depth h (resolvedOptions h cfg) d (ENTITIES d)\<close>


text \<open>
  The host of the examples: its text parsers give the text back as one token or one run
  without decoration, and its color table is empty.
\<close>

definition exampleHost :: \<open>host\<close> where
  \<open>exampleHost =
     \<lparr>numberText = exampleText,
      parseDxfMTextContent = (\<lambda>s. [MText s]),
      parseDxfTextContent = (\<lambda>s. [\<lparr>run_text = s, run_k = False, run_o = False, run_u = False\<rparr>]),
      DXF_COLOR_HEX = (\<lambda>index. None)\<rparr>\<close>

text \<open>A document with nothing but the given blocks and entities.\<close>

definition exampleDxf :: \<open>(string \<rightharpoonup> dxfrecord list) \<Rightarrow> dxfrecord list option \<Rightarrow> dxf\<close> where
  \<open>exampleDxf blocks entities =
     \<lparr>HEADER = Map.empty, TABLES_LAYER = [], TABLES_LTYPE = [], TABLES_DIMSTYLE = [],
      BLOCKS = blocks, ENTITIES = entities\<rparr>\<close>

text \<open>
  The blocks of the examples: one block \<open>B\<close>, holding a single line from (0,0) to
  (1,0) between its opening and closing records.
\<close>

definition exampleBlocks :: \<open>string \<rightharpoonup> dxfrecord list\<close> where
  \<open>exampleBlocks =
     [''B'' \<mapsto>
        [[(0, ''BLOCK''), (2, ''B'')],
         [(0, ''LINE''), (10, ''0''), (20, ''0''), (11, ''1''), (21, ''0'')],
         [(0, ''ENDBLK'')]]]\<close>

section \<open>Vocabulary of the properties\<close>



section \<open>Properties\<close>

lemma length_strokeDasharray_of:
  \<open>strokeDasharray_of d = [] \<or> length (strokeDasharray_of d) mod 2 = 1\<close>
  unfolding strokeDasharray_of_def by (cases d) (auto, presburger+)

subsection \<open>Dash patterns\<close>

text \<open>
  C3, as the specification states it, fails: the pattern stored for the raw pattern
  \<open>1, -2\<close> has three segments, and the even-length raw pattern \<open>0, -2\<close> only loses its
  leading zero.
\<close>

theorem C3_dash_pattern_counterexample:
  \<open>ltype_strokeDasharray [(0, ''LTYPE''), (49, ''1''), (49, ''-2'')] = [''1'', ''2'', ''0'']
   \<and> length (ltype_strokeDasharray [(0, ''LTYPE''), (49, ''1''), (49, ''-2'')]) mod 2 = 1
   \<and> ltype_strokeDasharray [(0, ''LTYPE''), (49, ''0''), (49, ''-2'')] = [''2'']\<close>
  by (simp add: ltype_strokeDasharray_def raw_strokeDasharray_def strokeDasharray_of_def
      getGroupCodeValues_def trimJs_def isWhiteSpace_def startsWith_def)

text \<open>
  C3, amended: for every linetype record the normalized dash pattern is empty or of odd
  length. A raw pattern that is empty or of odd length is kept; an even-length raw
  pattern whose first segment is the text \<open>0\<close> loses that segment and gets nothing
  appended; every other even-length raw pattern gets a segment \<open>0\<close> appended.
\<close>

theorem C3_dash_pattern_odd:
  \<open>(ltype_strokeDasharray ltype = [] \<or> length (ltype_strokeDasharray ltype) mod 2 = 1)
   \<and> (length (raw_strokeDasharray ltype) mod 2 = 1 \<or> raw_strokeDasharray ltype = []
        \<longrightarrow> ltype_strokeDasharray ltype = raw_strokeDasharray ltype)
   \<and> (raw_strokeDasharray ltype \<noteq> [] \<and> length (raw_strokeDasharray ltype) mod 2 = 0
        \<and> raw_strokeDasharray ltype ! 0 = ''0''
        \<longrightarrow> ltype_strokeDasharray ltype = drop 1 (raw_strokeDasharray ltype))
   \<and> (raw_strokeDasharray ltype \<noteq> [] \<and> length (raw_strokeDasharray ltype) mod 2 = 0
        \<and> raw_strokeDasharray ltype ! 0 \<noteq> ''0''
        \<longrightarrow> ltype_strokeDasharray ltype = raw_strokeDasharray ltype @ [''0''])\<close>
proof -
  have odd: \<open>ltype_strokeDasharray ltype = [] \<or> length (ltype_strokeDasharray ltype) mod 2 = 1\<close>
    unfolding ltype_strokeDasharray_def by (rule length_strokeDasharray_of)
  show ?thesis
    using odd by (auto simp: ltype_strokeDasharray_def strokeDasharray_of_def)
qed

theorem C3_dash_pattern_odd_witness:
  \<open>raw_strokeDasharray [(0, ''LTYPE''), (49, ''0''), (49, '' -3 ''), (49, ''1''), (49, ''-3'')]
     = [''0'', ''3'', ''1'', ''3'']
   \<and> ltype_strokeDasharray [(0, ''LTYPE''), (49, ''0''), (49, '' -3 ''), (49, ''1''), (49, ''-3'')]
     = [''3'', ''1'', ''3'']\<close>
proof -
  have raw: \<open>raw_strokeDasharray [(0, ''LTYPE''), (49, ''0''), (49, '' -3 ''), (49, ''1''), (49, ''-3'')]
     = [''0'', ''3'', ''1'', ''3'']\<close>
    by (simp add: raw_strokeDasharray_def getGroupCodeValues_def trimJs_def isWhiteSpace_def
        startsWith_def)
  show ?thesis
    using C3_dash_pattern_odd [of \<open>[(0, ''LTYPE''), (49, ''0''), (49, '' -3 ''), (49, ''1''), (49, ''-3'')]\<close>]
    by (simp add: raw)
qed

subsection \<open>Color resolution\<close>

lemma layerMap_one:
  \<open>layerMap opts \<lparr>HEADER = h, TABLES_LAYER = [[(0, ''LAYER''), (2, n), (62, c)]], TABLES_LTYPE = lt,
      TABLES_DIMSTYLE = ds, BLOCKS = b, ENTITIES = e\<rparr>
   = [n \<mapsto> \<lparr>layer_color = resolveColorIndex opts (StringToNumber c), layer_ltype = None\<rparr>]\<close>
  by (simp add: layerMap_def getGroupCodeValue_def propKey_def unaryPlus_def)

lemma StringToNumber_1 [simp]: \<open>StringToNumber ''1'' = Fin 1\<close>
  by (simp add: StringToNumber_def trimJs_def isWhiteSpace_def splitSign_def
      parseUnsignedDecimal_def isDigit_def natOfDigits_def)

text \<open>
  C5, as the specification states it, fails: an entity whose color index is the inherit
  sentinel 0 does not take the color of its layer. On a layer resolved to \<open>#f00\<close> it
  gets the inherit-from-context color.
\<close>

theorem C5_color_counterexample:
  \<open>layerMap \<lparr>resolveColorIndex = (\<lambda>i. if i = Fin 1 then ''#f00'' else ''#888''), resolveFont = None\<rparr>
      \<lparr>HEADER = Map.empty, TABLES_LAYER = [[(0, ''LAYER''), (2, ''L''), (62, ''1'')]],
       TABLES_LTYPE = [], TABLES_DIMSTYLE = [], BLOCKS = Map.empty, ENTITIES = None\<rparr> ''L''
     = Some \<lparr>layer_color = ''#f00'', layer_ltype = None\<rparr>
   \<and> color \<lparr>resolveColorIndex = (\<lambda>i. if i = Fin 1 then ''#f00'' else ''#888''), resolveFont = None\<rparr>
      \<lparr>HEADER = Map.empty, TABLES_LAYER = [[(0, ''LAYER''), (2, ''L''), (62, ''1'')]],
       TABLES_LTYPE = [], TABLES_DIMSTYLE = [], BLOCKS = Map.empty, ENTITIES = None\<rparr>
      [(0, ''LINE''), (8, ''L''), (62, ''0'')]
     = ''currentColor''\<close>
  by (simp add: layerMap_one color_def underscore_color_def dollar_trim_def trim_def
      getGroupCodeValue_def trimJs_def isWhiteSpace_def truthyStr_def)

text \<open>
  C5, amended: for every entity, with the color index read as the trimmed text of group
  62: the index \<open>0\<close> resolves to the inherit-from-context color whatever the layer; any
  other present, non-empty index but \<open>256\<close> resolves through the color collaborator;
  an absent or empty index and the index \<open>256\<close> take the resolved color of the owning
  layer. Where that gives nothing (no such layer) or an empty color, the result is the
  inherit-from-context color.
\<close>

theorem C5_color_resolution:
  \<open>(dollar_trim entity 62 = Some ''0'' \<longrightarrow> color opts d entity = ''currentColor'')
   \<and> (dollar_trim entity 62 = Some i \<and> i \<noteq> ''0'' \<and> i \<noteq> ''256'' \<and> i \<noteq> [] \<longrightarrow>
        color opts d entity =
          (if resolveColorIndex opts (StringToNumber i) \<noteq> []
           then resolveColorIndex opts (StringToNumber i) else ''currentColor''))
   \<and> (dollar_trim entity 62 \<in> {None, Some [], Some ''256''} \<longrightarrow>
        color opts d entity =
          (case layerMap opts d (propKey (dollar_trim entity 8)) of
             None \<Rightarrow> ''currentColor''
           | Some l \<Rightarrow> if layer_color l \<noteq> [] then layer_color l else ''currentColor''))\<close>
  by (auto simp: color_def underscore_color_def truthyStr_def unaryPlus_def
      split: option.splits)

theorem C5_color_resolution_witness:
  \<open>color \<lparr>resolveColorIndex = (\<lambda>i. if i = Fin 1 then ''#f00'' else ''#888''), resolveFont = None\<rparr>
      \<lparr>HEADER = Map.empty, TABLES_LAYER = [[(0, ''LAYER''), (2, ''L''), (62, ''1'')]],
       TABLES_LTYPE = [], TABLES_DIMSTYLE = [], BLOCKS = Map.empty, ENTITIES = None\<rparr>
      [(0, ''LINE''), (8, ''L''), (62, ''256'')]
     = ''#f00''\<close>
  using C5_color_resolution
    [of \<open>[(0, ''LINE''), (8, ''L''), (62, ''256'')]\<close>
        \<open>\<lparr>resolveColorIndex = (\<lambda>i. if i = Fin 1 then ''#f00'' else ''#888''), resolveFont = None\<rparr>\<close>
        \<open>\<lparr>HEADER = Map.empty, TABLES_LAYER = [[(0, ''LAYER''), (2, ''L''), (62, ''1'')]],
          TABLES_LTYPE = [], TABLES_DIMSTYLE = [], BLOCKS = Map.empty, ENTITIES = None\<rparr>\<close>]
  by (simp add: layerMap_one dollar_trim_def trim_def getGroupCodeValue_def trimJs_def
      isWhiteSpace_def propKey_def)

subsection \<open>Rotation of multi-line text\<close>

lemmas parse_simps =
  StringToNumber_def trimJs_def isWhiteSpace_def splitSign_def parseUnsignedDecimal_def
  isDigit_def natOfDigits_def pow10_def fromReal_def





subsection \<open>Tolerance text of a dimension\<close>

lemma numToString_small [simp]:
  \<open>numToString fmt (Fin 0) = ''0''\<close>
  \<open>numToString fmt (Fin 1) = ''1''\<close>
  \<open>numToString fmt (Fin 2) = ''2''\<close>
  \<open>numToString fmt (Fin 5) = ''5''\<close>
  by (simp_all add: numToString_def)

lemma round_js_5_4: \<open>round_js (Fin 5) (Fin 4) = Fin 5\<close>
  by (simp add: round_js_def shift_exponent_def pow10_def)

text \<open>
  C4, as the specification states it, fails: with tolerance enabled, a plus tolerance of
  1 and a minus tolerance of 0, the zero component of the stacked suffix is the text of
  a space and a zero, not the text \<open>0\<close>. The text for the measurement 5 is
  \<open>5  {\S+1^ 0;}\<close>.
\<close>

theorem C4_tolerance_counterexample:
  \<open>dimensionValueToMText exampleText (Fin 5) [(0, ''DIMENSION'')]
      \<lparr>DIMSCALE = Fin 1, DIMTP = Fin 1, DIMTM = Fin 0, DIMTOL = Fin 1, DIMTXT = Fin 1,
       DIMLFAC = Fin 1, DIMCLRT = NaN, DIMDEC = Fin 4\<rparr>
     = Inr (''5  {'' @ [CHR 0x5C] @ ''S+1^ 0;}'')
   \<and> toleranceString exampleText (Fin 0) = '' 0''
   \<and> toleranceString exampleText (Fin 0) \<noteq> ''0''\<close>
  by (simp add: dimensionValueToMText_def dollar_number_def getGroupCodeValue_def unaryPlus_def
      isNaN_def jeq_def round_js_5_4 truthyStr_def valueWithTolerance_def truthyNum_def
      toleranceString_def jgt_def)

text \<open>
  C4, amended: for every dimension entity with tolerance enabled: when the plus and the
  minus tolerance are both zero (or not a number) the text value carries no suffix; when
  plus equals minus and is non-zero the suffix is two spaces and \<open>\<plusminus>p\<close>; otherwise the
  suffix is two spaces and the stacked text \<open>{\Stop^bottom;}\<close>, where top renders the plus
  tolerance and bottom the negated minus tolerance, each as \<open>+x\<close> when positive, as the
  plain text of the number (which starts with its minus sign) when negative, and as a
  space followed by \<open>0\<close> otherwise, never as \<open>+0\<close> or \<open>-0\<close>. Without a stored template
  that text is the whole result; with one it replaces the first \<open><>\<close> of the template.
\<close>

theorem C4_tolerance_suffix:
  assumes \<open>truthyNum (DIMTOL styles)\<close>
  shows \<open>valueWithTolerance fmt v styles =
       (if \<not> truthyNum (DIMTP styles) \<and> \<not> truthyNum (DIMTM styles) then numToString fmt v
        else if DIMTP styles = DIMTM styles
        then numToString fmt v @ ''  '' @ [CHR 0xB1] @ numToString fmt (DIMTP styles)
        else numToString fmt v @ ''  {'' @ [CHR 0x5C] @ ''S'' @ toleranceString fmt (DIMTP styles)
             @ ''^'' @ toleranceString fmt (jneg (DIMTM styles)) @ '';}'')
     \<and> toleranceString fmt (Fin 0) = '' 0'' \<and> toleranceString fmt NaN = '' 0''
     \<and> (0 < r \<longrightarrow> toleranceString fmt (Fin r) = ''+'' @ numToString fmt (Fin r))
     \<and> (r < 0 \<longrightarrow> toleranceString fmt (Fin r) = numToString fmt (Fin r))
     \<and> (dollar_number fmt dimension 42 (Some (Fin (- 1))) = Inr saved \<longrightarrow>
          dimensionValueToMText fmt measurement dimension styles =
            (let text = valueWithTolerance fmt
                          (round_js (if \<not> jeq saved (Fin (- 1)) then saved
                                     else jmul measurement (DIMLFAC styles)) (DIMDEC styles))
                          styles
             in case getGroupCodeValue dimension 1 of
                  None \<Rightarrow> Inr text
                | Some template \<Rightarrow>
                    if template = [] then Inr text else Inr (replaceFirst ''<>'' text template)))\<close>
proof -
  have suffix: \<open>valueWithTolerance fmt v styles =
       (if \<not> truthyNum (DIMTP styles) \<and> \<not> truthyNum (DIMTM styles) then numToString fmt v
        else if DIMTP styles = DIMTM styles
        then numToString fmt v @ ''  '' @ [CHR 0xB1] @ numToString fmt (DIMTP styles)
        else numToString fmt v @ ''  {'' @ [CHR 0x5C] @ ''S'' @ toleranceString fmt (DIMTP styles)
             @ ''^'' @ toleranceString fmt (jneg (DIMTM styles)) @ '';}'')\<close>
    using assms by (auto simp: valueWithTolerance_def Let_def jeq_def truthyNum_def)
  have zero: \<open>toleranceString fmt (Fin 0) = '' 0'' \<and> toleranceString fmt NaN = '' 0''\<close>
    by (simp add: toleranceString_def jgt_def)
  have signs: \<open>(0 < r \<longrightarrow> toleranceString fmt (Fin r) = ''+'' @ numToString fmt (Fin r))
     \<and> (r < 0 \<longrightarrow> toleranceString fmt (Fin r) = numToString fmt (Fin r))\<close>
    by (simp add: toleranceString_def jgt_def)
  have whole: \<open>dollar_number fmt dimension 42 (Some (Fin (- 1))) = Inr saved \<longrightarrow>
          dimensionValueToMText fmt measurement dimension styles =
            (let text = valueWithTolerance fmt
                          (round_js (if \<not> jeq saved (Fin (- 1)) then saved
                                     else jmul measurement (DIMLFAC styles)) (DIMDEC styles))
                          styles
             in case getGroupCodeValue dimension 1 of
                  None \<Rightarrow> Inr text
                | Some template \<Rightarrow>
                    if template = [] then Inr text else Inr (replaceFirst ''<>'' text template))\<close>
    by (simp add: dimensionValueToMText_def Let_def truthyStr_def split: option.splits)
  from suffix zero signs whole show ?thesis
    by blast
qed

theorem C4_tolerance_suffix_witness:
  \<open>truthyNum (DIMTOL \<lparr>DIMSCALE = Fin 1, DIMTP = Fin 2, DIMTM = Fin 2, DIMTOL = Fin 1, DIMTXT = Fin 1,
       DIMLFAC = Fin 1, DIMCLRT = NaN, DIMDEC = Fin 4\<rparr>)
   \<and> dimensionValueToMText exampleText (Fin 5) [(0, ''DIMENSION''), (1, ''d=<> mm'')]
      \<lparr>DIMSCALE = Fin 1, DIMTP = Fin 2, DIMTM = Fin 2, DIMTOL = Fin 1, DIMTXT = Fin 1,
       DIMLFAC = Fin 1, DIMCLRT = NaN, DIMDEC = Fin 4\<rparr>
     = Inr (''d=5  '' @ [CHR 0xB1] @ ''2 mm'')\<close>
proof -
  have on: \<open>truthyNum (DIMTOL \<lparr>DIMSCALE = Fin 1, DIMTP = Fin 2, DIMTM = Fin 2, DIMTOL = Fin 1,
       DIMTXT = Fin 1, DIMLFAC = Fin 1, DIMCLRT = NaN, DIMDEC = Fin 4\<rparr>)\<close>
    by (simp add: truthyNum_def)
  have saved: \<open>dollar_number exampleText [(0, ''DIMENSION''), (1, ''d=<> mm'')] 42 (Some (Fin (- 1)))
      = Inr (Fin (- 1))\<close>
    by (simp add: dollar_number_def getGroupCodeValue_def unaryPlus_def isNaN_def)
  show ?thesis
    using on C4_tolerance_suffix [OF on, of exampleText \<open>Fin 5\<close> 1
        \<open>[(0, ''DIMENSION''), (1, ''d=<> mm'')]\<close> \<open>Fin (- 1)\<close> \<open>Fin 5\<close>]
    by (simp add: saved jeq_def round_js_5_4 truthyNum_def getGroupCodeValue_def
        replaceFirst_def startsWith_def)
qed

subsection \<open>The scene assembler\<close>






lemma createEntitySvgMap_VERTEX [simp]:
  \<open>createEntitySvgMap h opts d nested ''VERTEX'' = None\<close>
  \<open>createEntitySvgMap h opts d nested ''SEQEND'' = None\<close>
  by (simp_all add: createEntitySvgMap_def)


lemma StringToNumber_2000000: \<open>StringToNumber ''2000000'' = Fin 2000000\<close>
  by (simp add: parse_simps)

lemma dollar_number_2000000:
  \<open>dollar_number fmt ((0, t) # (10, ''2000000'') # r) 10 dflt
     = Inl (Error ''group code 10 is invalid (2000000)'')\<close>
  by (simp add: dollar_number_def getGroupCodeValue_def unaryPlus_def isNaN_def jgt_def
      StringToNumber_2000000 numToString_def)


lemma createEntitySvgMap_simps:
  \<open>createEntitySvgMap h opts d nested ''POINT'' = Some (\<lambda>entity vertices. Some ([], Inr POINT))\<close>
  \<open>createEntitySvgMap h opts d nested ''LINE'' = Some (\<lambda>entity vertices. Some ([], LINE h opts d entity))\<close>
  \<open>createEntitySvgMap h opts d nested ''ELLIPSE'' = Some (\<lambda>entity vertices. Some (ELLIPSE h opts d entity))\<close>
  \<open>createEntitySvgMap h opts d nested ''INSERT'' = Some (\<lambda>entity vertices. INSERT h opts d nested entity)\<close>
  by (simp_all add: createEntitySvgMap_def)

lemma after_vertices_simps [simp]:
  \<open>after_vertices [] = []\<close>
  \<open>vertices_of [] = []\<close>
  \<open>\<not> isVertex r \<Longrightarrow> after_vertices (r # rs) = r # rs\<close>
  \<open>\<not> isVertex r \<Longrightarrow> vertices_of (r # rs) = []\<close>
  by (simp_all add: after_vertices_def vertices_of_def)

lemma isVertex_tag [simp]: \<open>isVertex ((0, t) # r) = (t = ''VERTEX'')\<close>
  by (simp add: isVertex_def getGroupCodeValue_def)

lemma tag_simps [simp]:
  \<open>getGroupCodeValue ((0, t) # r) 0 = Some t\<close>
  by (simp add: getGroupCodeValue_def)


subsection \<open>Input errors\<close>









subsection \<open>Ellipses\<close>

lemma dollar_number_absent:
  \<open>getGroupCodeValue r groupCode = None \<Longrightarrow>
     dollar_number fmt r groupCode dflt = Inr (case dflt of None \<Rightarrow> NaN | Some v \<Rightarrow> v)\<close>
  by (simp add: dollar_number_def unaryPlus_def isNaN_def)

lemma nearlyEqual_same [simp]: \<open>nearlyEqual (Fin a) (Fin a)\<close>
  by (simp add: nearlyEqual_def jsub_def smallNumber_def)

lemma numToString_41 [simp]: \<open>numToString fmt (Fin 41) = ''41''\<close>
  by (simp add: numToString_def)


lemmas number_simps =
  dollar_number_def dollar_numbers_def dollar_negates_def bindE_def getGroupCodeValue_def
  unaryPlus_def isNaN_def jgt_def jsub_def parse_simps

lemmas markup_simps =
  jsx_def lineAttributes_def commonAttributes_def dollar_trim_def trim_def strOpt_def
  getProp_def truthyNum_def numToString_def escapeHtml_def replaceAll_def

lemma color_example [simp]:
  \<open>getGroupCodeValue entity 62 = None \<Longrightarrow>
     color opts (exampleDxf blocks entities) entity = ''currentColor''\<close>
  by (simp add: color_def underscore_color_def dollar_trim_def trim_def truthyStr_def layerMap_def
      exampleDxf_def)

lemma underscore_color_example [simp]:
  \<open>getGroupCodeValue entity 62 = None \<Longrightarrow>
     underscore_color opts (exampleDxf blocks entities) entity = None\<close>
  by (simp add: underscore_color_def dollar_trim_def trim_def truthyStr_def layerMap_def
      exampleDxf_def)

lemma strokeDasharray_example [simp]:
  \<open>strokeDasharray opts (exampleDxf blocks entities) entity = None\<close>
  by (simp add: strokeDasharray_def ltypeMap_def exampleDxf_def)

lemma extrusionStyle_absent [simp]:
  \<open>getGroupCodeValue entity 230 = None \<Longrightarrow> extrusionStyle entity = None\<close>
  by (simp add: extrusionStyle_def dollar_trim_def trim_def unaryPlus_def truthyNum_def)


subsection \<open>Block instances\<close>

lemma INSERT_result:
  assumes \<open>dollar_number (numberText h) entity 10 (Some (Fin 0)) = Inr x\<close>
    and \<open>dollar_number (numberText h) entity 20 (Some (Fin 0)) = Inr y0\<close>
    and \<open>dollar_number (numberText h) entity 50 None = Inr rotate0\<close>
    and \<open>dollar_number (numberText h) entity 41 (Some (Fin 1)) = Inr xscale0\<close>
    and \<open>dollar_number (numberText h) entity 42 (Some (Fin 1)) = Inr yscale0\<close>
    and \<open>nested (block_of d entity) = Some (lg, contents, box)\<close>
  shows \<open>INSERT h opts d nested entity =
     Some (lg, Inr (Some
       (jsx (numberText h) ''g''
          (commonAttributes entity
           @ [(''color'', strOpt (underscore_color opts d entity)),
              (''transform'',
                 Str (INSERT_transform (numberText h) x (jneg y0) (orNum xscale0 (Fin 1))
                        (orNum yscale0 (Fin 1)) (jneg rotate0))),
              (''children'', Str contents)]),
        [jadd x (jmul (bbox_x box) (orNum xscale0 (Fin 1))),
         jadd x (jmul (jadd (bbox_x box) (bbox_w box)) (orNum xscale0 (Fin 1)))],
        [jadd (jneg y0) (jmul (bbox_y box) (orNum yscale0 (Fin 1))),
         jadd (jneg y0) (jmul (jadd (bbox_y box) (bbox_h box)) (orNum yscale0 (Fin 1)))])))\<close>
  using assms by (simp add: INSERT_def Let_def)

lemma LINE_unit:
  \<open>LINE exampleHost opts (exampleDxf blocks entities)
      [(0, ''LINE''), (10, ''0''), (20, ''0''), (11, ''1''), (21, ''0'')]
     = Inr (Some (''<line stroke="currentColor" x2="1" fill="none" vector-effect="non-scaling-stroke"/>'',
                  [Fin 0, Fin 1], [Fin 0, Fin 0]))\<close>
  by (simp add: LINE_def number_simps markup_simps exampleHost_def)

lemma add_svg_initial:
  \<open>add_svg (s, [Fin a, Fin b], [Fin c, Fin e]) initial =
     \<lparr>as_log = [], as_s = s, as_minX = Fin (min a b), as_maxX = Fin (max a b),
      as_minY = Fin (min c e), as_maxY = Fin (max c e)\<rparr>\<close>
  by (auto simp: add_svg_def initial_def mathMin_def mathMax_def jmin2_def jmax2_def)

lemma entitiesSvg_Suc:
  \<open>entitiesSvg (Suc depth) h opts d (Some es) =
     map_option scene_of
       (entitiesLoop (numberText h) (createEntitySvgMap h opts d (entitiesSvg depth h opts d)) es
          initial)\<close>
  by simp

lemma nested_unit:
  \<open>entitiesSvg (Suc depth) exampleHost opts (exampleDxf blocks entities)
      (Some [[(0, ''LINE''), (10, ''0''), (20, ''0''), (11, ''1''), (21, ''0'')]])
     = Some ([], ''<line stroke="currentColor" x2="1" fill="none" vector-effect="non-scaling-stroke"/>'',
             \<lparr>bbox_x = Fin 0, bbox_y = Fin 0, bbox_w = Fin 1, bbox_h = Fin 0\<rparr>)\<close>
proof -
  have \<open>entitiesLoop fmt (createEntitySvgMap exampleHost opts (exampleDxf blocks entities) nested)
      [[(0, ''LINE''), (10, ''0''), (20, ''0''), (11, ''1''), (21, ''0'')]] initial
     = Some (add_svg (''<line stroke="currentColor" x2="1" fill="none" vector-effect="non-scaling-stroke"/>'',
                      [Fin 0, Fin 1], [Fin 0, Fin 0]) initial)\<close> for fmt nested
    by (simp add: createEntitySvgMap_simps LINE_unit truthyStr_def dispatch_def initial_def)
  then show ?thesis
    unfolding entitiesSvg_Suc add_svg_initial
    by (simp add: scene_of_def jsub_def)
qed

lemma numToString_100 [simp]:
  \<open>numToString fmt (Fin 100) = ''100''\<close>
  \<open>numToString fmt (Fin (- 90)) = ''-90''\<close>
  by (simp_all add: numToString_def)

lemma block_of_example:
  \<open>block_of (exampleDxf exampleBlocks entities) ((0, t) # (2, ''B'') # r)
     = Some [[(0, ''LINE''), (10, ''0''), (20, ''0''), (11, ''1''), (21, ''0'')]]\<close>
  by (simp add: block_of_def exampleDxf_def exampleBlocks_def propKey_def getGroupCodeValue_def
      sliceJs_def)

text \<open>
  The instance of the examples: the block \<open>B\<close> inserted at (100,0) with scale 2, as it
  is and with a stored rotation of 90 degrees.
\<close>

lemma INSERT_example:
  \<open>INSERT exampleHost opts (exampleDxf exampleBlocks entities)
       (entitiesSvg (Suc depth) exampleHost opts (exampleDxf exampleBlocks entities))
       ([(0, ''INSERT''), (2, ''B''), (10, ''100''), (20, ''0''), (41, ''2''), (42, ''2'')]
        @ (if rotated then [(50, ''90'')] else []))
     = Some ([], Inr (Some
         (''<g transform="translate(100,0) scale(2,2)'' @ (if rotated then '' rotate(-90)'' else [])
          @ ''"><line stroke="currentColor" x2="1" fill="none" vector-effect="non-scaling-stroke"/></g>'',
          [Fin 100, Fin 102], [Fin 0, Fin 0])))\<close>
proof -
  define ins :: dxfrecord where
    \<open>ins = [(0, ''INSERT''), (2, ''B''), (10, ''100''), (20, ''0''), (41, ''2''), (42, ''2'')]
        @ (if rotated then [(50, ''90'')] else [])\<close>
  define d where \<open>d = exampleDxf exampleBlocks entities\<close>
  have x: \<open>dollar_number (numberText exampleHost) ins 10 (Some (Fin 0)) = Inr (Fin 100)\<close>
    by (simp add: ins_def number_simps exampleHost_def)
  have y: \<open>dollar_number (numberText exampleHost) ins 20 (Some (Fin 0)) = Inr (Fin 0)\<close>
    by (simp add: ins_def number_simps exampleHost_def)
  have r: \<open>dollar_number (numberText exampleHost) ins 50 None
      = Inr (if rotated then Fin 90 else NaN)\<close>
    by (simp add: ins_def number_simps exampleHost_def)
  have xs: \<open>dollar_number (numberText exampleHost) ins 41 (Some (Fin 1)) = Inr (Fin 2)\<close>
    by (simp add: ins_def number_simps exampleHost_def)
  have ys: \<open>dollar_number (numberText exampleHost) ins 42 (Some (Fin 1)) = Inr (Fin 2)\<close>
    by (simp add: ins_def number_simps exampleHost_def)
  have nested: \<open>entitiesSvg (Suc depth) exampleHost opts d (block_of d ins)
     = Some ([], ''<line stroke="currentColor" x2="1" fill="none" vector-effect="non-scaling-stroke"/>'',
             \<lparr>bbox_x = Fin 0, bbox_y = Fin 0, bbox_w = Fin 1, bbox_h = Fin 0\<rparr>)\<close>
    unfolding d_def ins_def append_Cons block_of_example by (rule nested_unit)
  have color: \<open>underscore_color opts d ins = None\<close>
    unfolding d_def by (simp add: ins_def getGroupCodeValue_def)
  have \<open>INSERT exampleHost opts d (entitiesSvg (Suc depth) exampleHost opts d) ins
     = Some ([], Inr (Some
         (''<g transform="translate(100,0) scale(2,2)'' @ (if rotated then '' rotate(-90)'' else [])
          @ ''"><line stroke="currentColor" x2="1" fill="none" vector-effect="non-scaling-stroke"/></g>'',
          [Fin 100, Fin 102], [Fin 0, Fin 0])))\<close>
    unfolding INSERT_result [where nested = \<open>entitiesSvg (Suc depth) exampleHost opts d\<close>
        and d = d and h = exampleHost and entity = ins and opts = opts, OF x y r xs ys nested] color
    by (simp add: INSERT_transform_def orNum_def jeq_def markup_simps ins_def
        getGroupCodeValue_def exampleHost_def)
  then show ?thesis
    unfolding d_def ins_def .
qed

lemma scene_example:
  \<open>createSvgContents (Suc (Suc 0)) exampleHost
      (exampleDxf exampleBlocks
         (Some [[(0, ''INSERT''), (2, ''B''), (10, ''100''), (20, ''0''), (41, ''2''), (42, ''2'')]
                 @ (if rotated then [(50, ''90'')] else [])]))
      None
     = Some ([],
         ''<g transform="translate(100,0) scale(2,2)'' @ (if rotated then '' rotate(-90)'' else [])
         @ ''"><line stroke="currentColor" x2="1" fill="none" vector-effect="non-scaling-stroke"/></g>'',
         \<lparr>bbox_x = Fin 100, bbox_y = Fin 0, bbox_w = Fin 2, bbox_h = Fin 0\<rparr>)\<close>
proof -
  have loop: \<open>entitiesLoop (numberText exampleHost)
       (createEntitySvgMap exampleHost opts (exampleDxf exampleBlocks entities)
          (entitiesSvg (Suc 0) exampleHost opts (exampleDxf exampleBlocks entities)))
       [[(0, ''INSERT''), (2, ''B''), (10, ''100''), (20, ''0''), (41, ''2''), (42, ''2'')]
         @ (if rotated then [(50, ''90'')] else [])]
       initial
     = Some (add_svg
         (''<g transform="translate(100,0) scale(2,2)'' @ (if rotated then '' rotate(-90)'' else [])
          @ ''"><line stroke="currentColor" x2="1" fill="none" vector-effect="non-scaling-stroke"/></g>'',
          [Fin 100, Fin 102], [Fin 0, Fin 0]) initial)\<close> for opts entities
    using INSERT_example [of opts entities 0 rotated]
    by (simp add: createEntitySvgMap_simps truthyStr_def dispatch_def initial_def
        del: entitiesSvg.simps)
  show ?thesis
    unfolding createSvgContents_def exampleDxf_def dxf.simps entitiesSvg_Suc
    unfolding exampleDxf_def [symmetric] loop add_svg_initial
    by (simp add: scene_of_def jsub_def)
qed

text \<open>
  C8: the coordinates an insert contributes are the corners of the nested bounding box,
  scaled by the instance's scale factors and translated by its insertion point; the
  stored rotation (group 50) enters the transform attribute of the group and nothing
  else. For the block of one line from (0,0) to (1,0) inserted at (100,0) with scale 2,
  the group holds the line under \<open>translate(100,0) scale(2,2)\<close>, so the line spans
  (100,0) to (102,0), and the parent's bounding box is x = 100, y = 0, w = 2, h = 0; it
  is the same box when the instance is also rotated by 90 degrees.
\<close>

theorem C8_insert_extents:
  \<open>(dollar_number (numberText h) entity 10 (Some (Fin 0)) = Inr x
     \<and> dollar_number (numberText h) entity 20 (Some (Fin 0)) = Inr y0
     \<and> dollar_number (numberText h) entity 50 None = Inr rotate0
     \<and> dollar_number (numberText h) entity 41 (Some (Fin 1)) = Inr xscale0
     \<and> dollar_number (numberText h) entity 42 (Some (Fin 1)) = Inr yscale0
     \<and> nested (block_of d entity) = Some (lg, contents, box) \<longrightarrow>
     INSERT h opts d nested entity =
       Some (lg, Inr (Some
         (jsx (numberText h) ''g''
            (commonAttributes entity
             @ [(''color'', strOpt (underscore_color opts d entity)),
                (''transform'',
                   Str (INSERT_transform (numberText h) x (jneg y0) (orNum xscale0 (Fin 1))
                          (orNum yscale0 (Fin 1)) (jneg rotate0))),
                (''children'', Str contents)]),
          [jadd x (jmul (bbox_x box) (orNum xscale0 (Fin 1))),
           jadd x (jmul (jadd (bbox_x box) (bbox_w box)) (orNum xscale0 (Fin 1)))],
          [jadd (jneg y0) (jmul (bbox_y box) (orNum yscale0 (Fin 1))),
           jadd (jneg y0) (jmul (jadd (bbox_y box) (bbox_h box)) (orNum yscale0 (Fin 1)))]))))
   \<and> createSvgContents (Suc (Suc 0)) exampleHost
        (exampleDxf exampleBlocks
           (Some [[(0, ''INSERT''), (2, ''B''), (10, ''100''), (20, ''0''), (41, ''2''), (42, ''2'')]]))
        None
       = Some ([],
           ''<g transform="translate(100,0) scale(2,2)"><line stroke="currentColor" x2="1" fill="none" vector-effect="non-scaling-stroke"/></g>'',
           \<lparr>bbox_x = Fin 100, bbox_y = Fin 0, bbox_w = Fin 2, bbox_h = Fin 0\<rparr>)
   \<and> createSvgContents (Suc (Suc 0)) exampleHost
        (exampleDxf exampleBlocks
           (Some [[(0, ''INSERT''), (2, ''B''), (10, ''100''), (20, ''0''), (41, ''2''), (42, ''2''),
                   (50, ''90'')]]))
        None
       = Some ([],
           ''<g transform="translate(100,0) scale(2,2) rotate(-90)"><line stroke="currentColor" x2="1" fill="none" vector-effect="non-scaling-stroke"/></g>'',
           \<lparr>bbox_x = Fin 100, bbox_y = Fin 0, bbox_w = Fin 2, bbox_h = Fin 0\<rparr>)\<close>
proof (intro conjI impI)
  show \<open>createSvgContents (Suc (Suc 0)) exampleHost
        (exampleDxf exampleBlocks
           (Some [[(0, ''INSERT''), (2, ''B''), (10, ''100''), (20, ''0''), (41, ''2''), (42, ''2'')]]))
        None
       = Some ([],
           ''<g transform="translate(100,0) scale(2,2)"><line stroke="currentColor" x2="1" fill="none" vector-effect="non-scaling-stroke"/></g>'',
           \<lparr>bbox_x = Fin 100, bbox_y = Fin 0, bbox_w = Fin 2, bbox_h = Fin 0\<rparr>)\<close>
    using scene_example [of False] by simp
  show \<open>createSvgContents (Suc (Suc 0)) exampleHost
        (exampleDxf exampleBlocks
           (Some [[(0, ''INSERT''), (2, ''B''), (10, ''100''), (20, ''0''), (41, ''2''), (42, ''2''),
                   (50, ''90'')]]))
        None
       = Some ([],
           ''<g transform="translate(100,0) scale(2,2) rotate(-90)"><line stroke="currentColor" x2="1" fill="none" vector-effect="non-scaling-stroke"/></g>'',
           \<lparr>bbox_x = Fin 100, bbox_y = Fin 0, bbox_w = Fin 2, bbox_h = Fin 0\<rparr>)\<close>
    using scene_example [of True] by simp
next
  assume \<open>dollar_number (numberText h) entity 10 (Some (Fin 0)) = Inr x
     \<and> dollar_number (numberText h) entity 20 (Some (Fin 0)) = Inr y0
     \<and> dollar_number (numberText h) entity 50 None = Inr rotate0
     \<and> dollar_number (numberText h) entity 41 (Some (Fin 1)) = Inr xscale0
     \<and> dollar_number (numberText h) entity 42 (Some (Fin 1)) = Inr yscale0
     \<and> nested (block_of d entity) = Some (lg, contents, box)\<close>
  then show \<open>INSERT h opts d nested entity =
       Some (lg, Inr (Some
         (jsx (numberText h) ''g''
            (commonAttributes entity
             @ [(''color'', strOpt (underscore_color opts d entity)),
                (''transform'',
                   Str (INSERT_transform (numberText h) x (jneg y0) (orNum xscale0 (Fin 1))
                          (orNum yscale0 (Fin 1)) (jneg rotate0))),
                (''children'', Str contents)]),
          [jadd x (jmul (bbox_x box) (orNum xscale0 (Fin 1))),
           jadd x (jmul (jadd (bbox_x box) (bbox_w box)) (orNum xscale0 (Fin 1)))],
          [jadd (jneg y0) (jmul (bbox_y box) (orNum yscale0 (Fin 1))),
           jadd (jneg y0) (jmul (jadd (bbox_y box) (bbox_h box)) (orNum yscale0 (Fin 1)))])))\<close>
    by (simp add: INSERT_def Let_def)
qed

theorem C8_insert_extents_witness:
  \<open>INSERT exampleHost (defaultOptions exampleHost) (exampleDxf exampleBlocks None)
      (entitiesSvg (Suc 0) exampleHost (defaultOptions exampleHost) (exampleDxf exampleBlocks None))
      [(0, ''INSERT''), (2, ''B''), (10, ''100''), (20, ''0''), (41, ''2''), (42, ''2''), (50, ''90'')]
     = Some ([], Inr (Some
         (''<g transform="translate(100,0) scale(2,2) rotate(-90)"><line stroke="currentColor" x2="1" fill="none" vector-effect="non-scaling-stroke"/></g>'',
          [Fin 100, Fin 102], [Fin 0, Fin 0])))\<close>
proof -
  define ins :: dxfrecord where
    \<open>ins = [(0, ''INSERT''), (2, ''B''), (10, ''100''), (20, ''0''), (41, ''2''), (42, ''2''), (50, ''90'')]\<close>
  define d where \<open>d = exampleDxf exampleBlocks None\<close>
  define opts where \<open>opts = defaultOptions exampleHost\<close>
  have reads: \<open>dollar_number (numberText exampleHost) ins 10 (Some (Fin 0)) = Inr (Fin 100)
     \<and> dollar_number (numberText exampleHost) ins 20 (Some (Fin 0)) = Inr (Fin 0)
     \<and> dollar_number (numberText exampleHost) ins 50 None = Inr (Fin 90)
     \<and> dollar_number (numberText exampleHost) ins 41 (Some (Fin 1)) = Inr (Fin 2)
     \<and> dollar_number (numberText exampleHost) ins 42 (Some (Fin 1)) = Inr (Fin 2)
     \<and> entitiesSvg (Suc 0) exampleHost opts d (block_of d ins)
       = Some ([], ''<line stroke="currentColor" x2="1" fill="none" vector-effect="non-scaling-stroke"/>'',
               \<lparr>bbox_x = Fin 0, bbox_y = Fin 0, bbox_w = Fin 1, bbox_h = Fin 0\<rparr>)\<close>
  proof (intro conjI)
    show \<open>entitiesSvg (Suc 0) exampleHost opts d (block_of d ins)
       = Some ([], ''<line stroke="currentColor" x2="1" fill="none" vector-effect="non-scaling-stroke"/>'',
               \<lparr>bbox_x = Fin 0, bbox_y = Fin 0, bbox_w = Fin 1, bbox_h = Fin 0\<rparr>)\<close>
      unfolding d_def ins_def block_of_example by (rule nested_unit)
  qed (simp_all add: ins_def number_simps exampleHost_def)
  have color: \<open>underscore_color opts d ins = None\<close>
    unfolding d_def by (simp add: ins_def getGroupCodeValue_def)
  have \<open>INSERT exampleHost opts d (entitiesSvg (Suc 0) exampleHost opts d) ins
     = Some ([], Inr (Some
         (''<g transform="translate(100,0) scale(2,2) rotate(-90)"><line stroke="currentColor" x2="1" fill="none" vector-effect="non-scaling-stroke"/></g>'',
          [Fin 100, Fin 102], [Fin 0, Fin 0])))\<close>
    unfolding C8_insert_extents [where h = exampleHost and entity = ins and d = d
        and nested = \<open>entitiesSvg (Suc 0) exampleHost opts d\<close> and opts = opts,
        THEN conjunct1, THEN mp, OF reads] color
    by (simp add: INSERT_transform_def orNum_def jeq_def markup_simps ins_def
        getGroupCodeValue_def exampleHost_def)
  then show ?thesis
    unfolding d_def ins_def opts_def .
qed

subsection \<open>Instances of a missing block\<close>

lemma dollar_number_finite:
  assumes \<open>dollar_number fmt r groupCode (Some (Fin a)) = Inr v\<close>
  shows \<open>\<exists>b. v = Fin b\<close>
proof (cases \<open>unaryPlus (getGroupCodeValue r groupCode)\<close>)
  case NaN
  with assms show ?thesis
    by (auto simp: dollar_number_def isNaN_def)
next
  case PInf
  with assms show ?thesis
    by (simp add: dollar_number_def isNaN_def jgt_def)
next
  case NInf
  with assms show ?thesis
    by (simp add: dollar_number_def isNaN_def jgt_def)
next
  case (Fin u)
  show ?thesis
    using assms unfolding dollar_number_def Let_def Fin
    by (auto simp: isNaN_def jgt_def split: if_splits)
qed

lemma mathMin_single [simp]: \<open>mathMin [m] = m\<close>
  by (cases m) (auto simp: mathMin_def jmin2_def)

lemma mathMax_single [simp]: \<open>mathMax [m] = m\<close>
  by (cases m) (auto simp: mathMax_def jmax2_def)

lemma add_svg_no_finite:
  assumes \<open>filter isFinite xs = []\<close> \<open>filter isFinite ys = []\<close>
  shows \<open>add_svg (markup, xs, ys) st = st\<lparr>as_s := as_s st @ markup\<rparr>\<close>
  using assms by (simp add: add_svg_def)

lemma degenerate_extent:
  assumes \<open>s \<noteq> 0\<close>
  shows \<open>\<not> isFinite (jadd (Fin a) (jmul PInf (Fin s)))\<close>
    and \<open>\<not> isFinite (jadd (Fin a) (jmul (jadd PInf NInf) (Fin s)))\<close>
  using assms by auto

lemma orNum_one:
  assumes \<open>v = Fin b\<close>
  shows \<open>\<exists>s. orNum v (Fin 1) = Fin s \<and> s \<noteq> 0\<close>
  using assms by (auto simp: orNum_def truthyNum_def)

lemma entitiesSvg_absent:
  \<open>entitiesSvg (Suc depth) h opts d None
     = Some ([], [], \<lparr>bbox_x = PInf, bbox_y = PInf, bbox_w = NInf, bbox_h = NInf\<rparr>)\<close>
  by (simp add: scene_of_def initial_def jsub_def)

text \<open>
  C10, as the specification states it, fails on an insert with a numeric field beyond the
  sanity bound: for the missing block \<open>B\<close> inserted at x = 2000000 the interpreter returns
  no group but raises the input error, and a diagnostic is emitted.
\<close>

theorem C10_missing_block_counterexample:
  \<open>createSvgContents (Suc (Suc 0)) exampleHost
      (exampleDxf Map.empty (Some [[(0, ''INSERT''), (10, ''2000000''), (2, ''B'')]])) None
     = Some ([(ErrorOccurred (Error ''group code 10 is invalid (2000000)''),
               [[(0, ''INSERT''), (10, ''2000000''), (2, ''B'')]])],
             [],
             \<lparr>bbox_x = PInf, bbox_y = PInf, bbox_w = NInf, bbox_h = NInf\<rparr>)\<close>
proof -
  have \<open>INSERT h opts d nested [(0, ''INSERT''), (10, ''2000000''), (2, ''B'')]
      = Some ([], Inl (Error ''group code 10 is invalid (2000000)''))\<close> for h opts d nested
    by (simp add: INSERT_def dollar_number_2000000)
  then have loop: \<open>entitiesLoop fmt (createEntitySvgMap h opts d nested)
      [[(0, ''INSERT''), (10, ''2000000''), (2, ''B'')]] initial
     = Some (initial\<lparr>as_log := [(ErrorOccurred (Error ''group code 10 is invalid (2000000)''),
               [[(0, ''INSERT''), (10, ''2000000''), (2, ''B'')]])]\<rparr>)\<close> for fmt h opts d nested
    by (simp add: createEntitySvgMap_simps truthyStr_def dispatch_def warn_def initial_def)
  show ?thesis
    unfolding createSvgContents_def exampleDxf_def dxf.simps entitiesSvg_Suc loop
    by (simp add: scene_of_def initial_def jsub_def)
qed

text \<open>
  C10, amended: for every insert record whose named block is not present in the
  document's block mapping and whose insertion point, rotation and scale factors (groups
  10, 20, 50, 41, 42) are read without an input error, the conversion does not fail and
  emits no diagnostic: the interpreter returns a group primitive with empty contents,
  and because the nested degenerate bounding box yields only non-finite coordinates, the
  scene assembler adds the group's markup to its state and nothing else.
\<close>

theorem C10_missing_block:
  assumes \<open>dollar_number (numberText h) entity 10 (Some (Fin 0)) = Inr x\<close>
    and \<open>dollar_number (numberText h) entity 20 (Some (Fin 0)) = Inr y0\<close>
    and \<open>dollar_number (numberText h) entity 50 None = Inr rotate0\<close>
    and \<open>dollar_number (numberText h) entity 41 (Some (Fin 1)) = Inr xscale0\<close>
    and \<open>dollar_number (numberText h) entity 42 (Some (Fin 1)) = Inr yscale0\<close>
    and missing: \<open>BLOCKS d (propKey (getGroupCodeValue entity 2)) = None\<close>
  shows \<open>\<exists>xs ys.
     INSERT h opts d (entitiesSvg (Suc depth) h opts d) entity =
       Some ([], Inr (Some
         (''<g'' @ jsx_attrs (numberText h)
                    (commonAttributes entity
                     @ [(''color'', strOpt (underscore_color opts d entity)),
                        (''transform'',
                           Str (INSERT_transform (numberText h) x (jneg y0) (orNum xscale0 (Fin 1))
                                  (orNum yscale0 (Fin 1)) (jneg rotate0)))])
          @ ''/>'', xs, ys)))
     \<and> filter isFinite xs = [] \<and> filter isFinite ys = []
     \<and> dispatch fmt (createEntitySvgMap h opts d (entitiesSvg (Suc depth) h opts d)) ''INSERT''
          entity vertices st =
         Some (st\<lparr>as_s := as_s st @ ''<g''
                 @ jsx_attrs (numberText h)
                     (commonAttributes entity
                      @ [(''color'', strOpt (underscore_color opts d entity)),
                         (''transform'',
                            Str (INSERT_transform (numberText h) x (jneg y0) (orNum xscale0 (Fin 1))
                                   (orNum yscale0 (Fin 1)) (jneg rotate0)))])
                 @ ''/>''\<rparr>)\<close>
proof -
  obtain a where a: \<open>x = Fin a\<close>
    using dollar_number_finite [OF assms(1)] by blast
  obtain b where b: \<open>y0 = Fin b\<close>
    using dollar_number_finite [OF assms(2)] by blast
  obtain p where \<open>xscale0 = Fin p\<close>
    using dollar_number_finite [OF assms(4)] by blast
  then obtain sx where sx: \<open>orNum xscale0 (Fin 1) = Fin sx\<close> \<open>sx \<noteq> 0\<close>
    using orNum_one by blast
  obtain q where \<open>yscale0 = Fin q\<close>
    using dollar_number_finite [OF assms(5)] by blast
  then obtain sy where sy: \<open>orNum yscale0 (Fin 1) = Fin sy\<close> \<open>sy \<noteq> 0\<close>
    using orNum_one by blast
  have nested: \<open>entitiesSvg (Suc depth) h opts d (block_of d entity)
      = Some ([], [], \<lparr>bbox_x = PInf, bbox_y = PInf, bbox_w = NInf, bbox_h = NInf\<rparr>)\<close>
    using missing by (simp add: block_of_def entitiesSvg_absent del: entitiesSvg.simps)
  note result = INSERT_result [where nested = \<open>entitiesSvg (Suc depth) h opts d\<close> and d = d
      and h = h and entity = entity and opts = opts, OF assms(1-5) nested]
  have markup: \<open>jsx (numberText h) ''g''
      (commonAttributes entity
       @ [(''color'', strOpt (underscore_color opts d entity)),
          (''transform'',
             Str (INSERT_transform (numberText h) x (jneg y0) (orNum xscale0 (Fin 1))
                    (orNum yscale0 (Fin 1)) (jneg rotate0))),
          (''children'', Str [])])
     = ''<g'' @ jsx_attrs (numberText h)
                (commonAttributes entity
                 @ [(''color'', strOpt (underscore_color opts d entity)),
                    (''transform'',
                       Str (INSERT_transform (numberText h) x (jneg y0) (orNum xscale0 (Fin 1))
                              (orNum yscale0 (Fin 1)) (jneg rotate0)))])
        @ ''/>''\<close>
    by (simp add: jsx_def commonAttributes_def Let_def)
  have nofin:
    \<open>filter isFinite [jadd x (jmul PInf (orNum xscale0 (Fin 1))),
                      jadd x (jmul (jadd PInf NInf) (orNum xscale0 (Fin 1)))] = []\<close>
    \<open>filter isFinite [jadd (jneg y0) (jmul PInf (orNum yscale0 (Fin 1))),
                      jadd (jneg y0) (jmul (jadd PInf NInf) (orNum yscale0 (Fin 1)))] = []\<close>
    using sx sy by (auto simp: a b)
  show ?thesis
    using result nofin
    by (simp add: markup dispatch_def createEntitySvgMap_simps add_svg_no_finite
        del: entitiesSvg.simps)
qed
theorem C10_missing_block_witness:
  \<open>createSvgContents (Suc (Suc 0)) exampleHost
      (exampleDxf Map.empty (Some [[(0, ''INSERT''), (2, ''B''), (10, ''7''), (20, ''3'')]])) None
     = Some ([], ''<g transform="translate(7,-3)"/>'',
             \<lparr>bbox_x = PInf, bbox_y = PInf, bbox_w = NInf, bbox_h = NInf\<rparr>)\<close>
proof -
  define ins :: dxfrecord where \<open>ins = [(0, ''INSERT''), (2, ''B''), (10, ''7''), (20, ''3'')]\<close>
  define d where \<open>d = exampleDxf Map.empty (Some [ins])\<close>
  define opts where \<open>opts = resolvedOptions exampleHost None\<close>
  have x: \<open>dollar_number (numberText exampleHost) ins 10 (Some (Fin 0)) = Inr (Fin 7)\<close>
    by (simp add: ins_def number_simps)
  have y: \<open>dollar_number (numberText exampleHost) ins 20 (Some (Fin 0)) = Inr (Fin 3)\<close>
    by (simp add: ins_def number_simps)
  have r: \<open>dollar_number (numberText exampleHost) ins 50 None = Inr NaN\<close>
    by (simp add: ins_def dollar_number_absent getGroupCodeValue_def)
  have xs: \<open>dollar_number (numberText exampleHost) ins 41 (Some (Fin 1)) = Inr (Fin 1)\<close>
    by (simp add: ins_def dollar_number_absent getGroupCodeValue_def)
  have ys: \<open>dollar_number (numberText exampleHost) ins 42 (Some (Fin 1)) = Inr (Fin 1)\<close>
    by (simp add: ins_def dollar_number_absent getGroupCodeValue_def)
  have missing: \<open>BLOCKS d (propKey (getGroupCodeValue ins 2)) = None\<close>
    by (simp add: d_def exampleDxf_def)
  have color: \<open>underscore_color opts d ins = None\<close>
    unfolding d_def by (simp add: ins_def getGroupCodeValue_def)
  have markup: \<open>''<g'' @ jsx_attrs (numberText exampleHost)
                    (commonAttributes ins
                     @ [(''color'', strOpt None),
                        (''transform'',
                           Str (INSERT_transform (numberText exampleHost) (Fin 7) (jneg (Fin 3))
                                  (orNum (Fin 1) (Fin 1)) (orNum (Fin 1) (Fin 1)) (jneg NaN)))])
          @ ''/>'' = ''<g transform="translate(7,-3)"/>''\<close>
    by (simp add: INSERT_transform_def orNum_def jeq_def markup_simps ins_def
        getGroupCodeValue_def exampleHost_def)
  have step: \<open>dispatch (numberText exampleHost)
      (createEntitySvgMap exampleHost opts d (entitiesSvg (Suc 0) exampleHost opts d)) ''INSERT''
      ins [] initial = Some (initial\<lparr>as_s := as_s initial @ ''<g transform="translate(7,-3)"/>''\<rparr>)\<close>
    using C10_missing_block [where h = exampleHost and entity = ins and d = d and opts = opts
        and depth = 0 and fmt = \<open>numberText exampleHost\<close> and vertices = \<open>[]\<close> and st = initial,
        OF x y r xs ys missing]
    unfolding color markup by blast
  have loop: \<open>entitiesLoop (numberText exampleHost)
       (createEntitySvgMap exampleHost opts d (entitiesSvg (Suc 0) exampleHost opts d)) [ins] initial
     = Some (initial\<lparr>as_s := ''<g transform="translate(7,-3)"/>''\<rparr>)\<close>
    using step by (simp add: truthyStr_def ins_def initial_def del: entitiesSvg.simps)
  have e: \<open>ENTITIES d = Some [ins]\<close>
    by (simp add: d_def exampleDxf_def)
  have \<open>createSvgContents (Suc (Suc 0)) exampleHost d None
     = Some ([], ''<g transform="translate(7,-3)"/>'',
             \<lparr>bbox_x = PInf, bbox_y = PInf, bbox_w = NInf, bbox_h = NInf\<rparr>)\<close>
    unfolding createSvgContents_def e opts_def [symmetric] entitiesSvg_Suc loop
    by (simp add: scene_of_def initial_def jsub_def)
  then show ?thesis
    unfolding d_def ins_def .
qed

subsection \<open>Scenes without a rendered entity\<close>



lemma numToString_infinities [simp]:
  \<open>numToString fmt PInf = ''Infinity''\<close>
  \<open>numToString fmt NInf = ''-Infinity''\<close>
  \<open>numToString fmt NaN = ''NaN''\<close>
  by (simp_all add: numToString_def)


end
